theory Spec2Isabelle
  imports Main
begin

section \<open>Data model (types.ts)\<close>

text \<open>
  The interfaces of \<^verbatim>\<open>types.ts\<close> that the calling code reads. Of \<^verbatim>\<open>UserProfile\<close> the
  optional fields \<^verbatim>\<open>status\<close>, \<^verbatim>\<open>lastSeen\<close> and \<^verbatim>\<open>unreadChats\<close> are never read by the
  call code and are left out. An optional field is an \<open>option\<close>.
\<close>

record userProfile =
  uid :: string
  email :: string
  displayName :: string
  photoURL :: "string option"

datatype signalType = Offer | Answer

record callSignal =
  sigType :: signalType
  sdp :: string

record incomingCallData =
  callerId :: string
  callerName :: string
  callerPhoto :: "string option"
  callId :: string
  isVideo :: bool
  offer :: callSignal

record iceCandidateData =
  candidate :: string
  sdpMid :: string
  sdpMLineIndex :: int

section \<open>The browser objects the call code drives\<close>

text \<open>
  The media and peer-connection objects belong to the browser. They are modelled by the
  fields the code reads and the methods it calls, nothing more.

  A \<^verbatim>\<open>MediaStreamTrack\<close> is an object shared between the local stream and a sender, so
  tracks live in a heap (a list; a track's identity is its index) and streams hold
  track identities. Streams are objects too (the preview element points at one), so
  they live in a second heap.
\<close>

datatype trackKind = AudioTrack | VideoTrack
datatype trackState = Live | Ended

record track =
  kind :: trackKind
  settingsDeviceId :: "string option"
  enabled :: bool
  readyState :: trackState

datatype deviceKind = AudioInput | AudioOutput | VideoInput

record mediaDeviceInfo =
  deviceId :: string
  deviceKind :: deviceKind

datatype connState = StNew | StConnecting | StConnected | StDisconnected | StFailed | StClosed

text \<open>
  \<open>senders\<close> holds, per \<^verbatim>\<open>RTCRtpSender\<close>, the identity of its track (\<^verbatim>\<open>sender.track\<close>).
  \<open>pendingRemoteDescriptions\<close> are the \<^verbatim>\<open>setRemoteDescription\<close> calls that were issued
  without \<^verbatim>\<open>await\<close> and have not settled yet, oldest first.
  \<open>addedIceCandidates\<close> are the candidates the connection has accepted, in order.
\<close>

record rtcPeerConnection =
  senders :: "nat option list"
  localDescription :: "callSignal option"
  currentRemoteDescription :: "callSignal option"
  pendingRemoteDescriptions :: "callSignal list"
  addedIceCandidates :: "iceCandidateData list"
  connectionState :: connState

datatype domError = NotAllowedError | NotFoundError | InvalidStateError | TypeError | OtherError

datatype videoConstraint = NoVideo | FacingUser | ExactDevice string

record mediaConstraints =
  video :: videoConstraint
  audio :: bool

section \<open>The signaling store (Firebase Realtime Database)\<close>

text \<open>
  The four locations the call code touches:
  \<^verbatim>\<open>calls/{callId}/status\<close>, \<^verbatim>\<open>calls/{callId}/answer\<close>,
  \<^verbatim>\<open>calls/{callId}/candidates/{uid}\<close> (children appended by \<^verbatim>\<open>push\<close>, read back in
  insertion order) and \<^verbatim>\<open>users/{uid}/incomingCall\<close>.
\<close>

datatype dbKey =
    StatusKey string
  | AnswerKey string
  | CandidatesKey string string
  | IncomingCallKey string

record database =
  statusAt :: "string \<Rightarrow> string option"
  answerAt :: "string \<Rightarrow> callSignal option"
  candidatesAt :: "string \<times> string \<Rightarrow> iceCandidateData list"
  incomingCallAt :: "string \<Rightarrow> incomingCallData option"

section \<open>Calls to the outside, in order\<close>

datatype effect =
    GetUserMedia mediaConstraints
  | EnumerateDevices
  | NewPeerConnection
  | PcAddTrack nat
  | PcCreateOffer
  | PcCreateAnswer
  | PcSetLocalDescription callSignal
  | PcSetRemoteDescription callSignal
  | PcAddIceCandidate iceCandidateData
  | PcClose
  | SenderReplaceTrack nat "nat option"
  | TrackStop nat
  | DbWrite dbKey
  | DbRemove dbKey
  | DbOnValue dbKey
  | DbOff dbKey
  | SetTimeout nat
  | ConsoleError string

section \<open>The state of the application\<close>

text \<open>
  One record for the \<^verbatim>\<open>App\<close> state, the mounted \<^verbatim>\<open>CallModal\<close> (its props as captured by
  the mount effect's closure, its React state and its refs) and the outside world.
  \<open>mounted\<close> says whether \<^verbatim>\<open>App\<close> currently renders a \<^verbatim>\<open>CallModal\<close>.
  \<open>localVideoRef\<close> is \<open>None\<close> while the ref is null, and otherwise holds the element's
  \<^verbatim>\<open>srcObject\<close> (a stream identity); likewise \<open>remoteVideoRef\<close>.
  \<open>timers\<close> are the delays of the pending \<^verbatim>\<open>setTimeout(onEndCall, d)\<close> calls.
\<close>

record sys =
  \<comment> \<open>App state\<close>
  userProfile :: "userProfile option"
  selectedPartner :: "userProfile option"
  isInCall :: bool
  incomingCall :: "incomingCallData option"
  isVideoCall :: bool
  \<comment> \<open>CallModal props\<close>
  mounted :: bool
  currentUser :: userProfile
  partner :: "userProfile option"
  incomingCallProp :: "incomingCallData option"
  isVideoProp :: bool
  theCallId :: string
  \<comment> \<open>CallModal state\<close>
  isMuted :: bool
  isCameraOff :: bool
  connectionStatus :: string
  hasMultipleCameras :: bool
  \<comment> \<open>CallModal refs\<close>
  localVideoRef :: "nat option option"
  remoteVideoRef :: "nat option option"
  peerConnection :: "rtcPeerConnection option"
  localStream :: "nat option"
  \<comment> \<open>the world\<close>
  db :: database
  listeners :: "dbKey list"
  tracks :: "track list"
  streams :: "nat list list"
  timers :: "nat list"
  trace :: "effect list"

section \<open>Helpers for the outside calls\<close>

definition logE :: "effect \<Rightarrow> sys \<Rightarrow> sys" where
  "logE e s = s\<lparr>trace := trace s @ [e]\<rparr>"

definition consoleError :: "string \<Rightarrow> sys \<Rightarrow> sys" where
  "consoleError m s = logE (ConsoleError m) s"

definition updPc :: "(rtcPeerConnection \<Rightarrow> rtcPeerConnection) \<Rightarrow> sys \<Rightarrow> sys" where
  "updPc f s =
     (case peerConnection s of None \<Rightarrow> s | Some pc \<Rightarrow> s\<lparr>peerConnection := Some (f pc)\<rparr>)"

definition dbSetStatus :: "string \<Rightarrow> string \<Rightarrow> sys \<Rightarrow> sys" where
  "dbSetStatus cid v s =
     logE (DbWrite (StatusKey cid))
       (s\<lparr>db := (db s)\<lparr>statusAt := (statusAt (db s))(cid \<mapsto> v)\<rparr>\<rparr>)"

definition dbSetAnswer :: "string \<Rightarrow> callSignal \<Rightarrow> sys \<Rightarrow> sys" where
  "dbSetAnswer cid v s =
     logE (DbWrite (AnswerKey cid))
       (s\<lparr>db := (db s)\<lparr>answerAt := (answerAt (db s))(cid \<mapsto> v)\<rparr>\<rparr>)"

definition dbSetIncomingCall :: "string \<Rightarrow> incomingCallData \<Rightarrow> sys \<Rightarrow> sys" where
  "dbSetIncomingCall u v s =
     logE (DbWrite (IncomingCallKey u))
       (s\<lparr>db := (db s)\<lparr>incomingCallAt := (incomingCallAt (db s))(u \<mapsto> v)\<rparr>\<rparr>)"

definition dbRemoveIncomingCall :: "string \<Rightarrow> sys \<Rightarrow> sys" where
  "dbRemoveIncomingCall u s =
     logE (DbRemove (IncomingCallKey u))
       (s\<lparr>db := (db s)\<lparr>incomingCallAt := (incomingCallAt (db s))(u := None)\<rparr>\<rparr>)"

definition dbPushCandidate :: "string \<Rightarrow> string \<Rightarrow> iceCandidateData \<Rightarrow> sys \<Rightarrow> sys" where
  "dbPushCandidate cid u c s =
     logE (DbWrite (CandidatesKey cid u))
       (s\<lparr>db := (db s)\<lparr>candidatesAt :=
            (candidatesAt (db s))((cid, u) := candidatesAt (db s) (cid, u) @ [c])\<rparr>\<rparr>)"

definition dbOnValue :: "dbKey \<Rightarrow> sys \<Rightarrow> sys" where
  "dbOnValue k s = logE (DbOnValue k) (s\<lparr>listeners := listeners s @ [k]\<rparr>)"

text \<open>\<^verbatim>\<open>off(ref)\<close> detaches every listener at the location.\<close>

definition dbOff :: "dbKey \<Rightarrow> sys \<Rightarrow> sys" where
  "dbOff k s = logE (DbOff k) (s\<lparr>listeners := filter (\<lambda>k'. k' \<noteq> k) (listeners s)\<rparr>)"

definition getTracks :: "nat \<Rightarrow> sys \<Rightarrow> nat list" where
  "getTracks sid s = (if sid < length (streams s) then streams s ! sid else [])"

definition kindOf :: "sys \<Rightarrow> nat \<Rightarrow> trackKind option" where
  "kindOf s i = (if i < length (tracks s) then Some (kind (tracks s ! i)) else None)"

definition getVideoTracks :: "nat \<Rightarrow> sys \<Rightarrow> nat list" where
  "getVideoTracks sid s = filter (\<lambda>i. kindOf s i = Some VideoTrack) (getTracks sid s)"

definition getAudioTracks :: "nat \<Rightarrow> sys \<Rightarrow> nat list" where
  "getAudioTracks sid s = filter (\<lambda>i. kindOf s i = Some AudioTrack) (getTracks sid s)"

definition stopTrack :: "nat \<Rightarrow> sys \<Rightarrow> sys" where
  "stopTrack i s =
     logE (TrackStop i)
       (if i < length (tracks s)
        then s\<lparr>tracks := (tracks s)[i := (tracks s ! i)\<lparr>readyState := Ended\<rparr>]\<rparr>
        else s)"

definition flipEnabled :: "nat \<Rightarrow> sys \<Rightarrow> sys" where
  "flipEnabled i s =
     (if i < length (tracks s)
      then s\<lparr>tracks := (tracks s)[i := (tracks s ! i)\<lparr>enabled := \<not> enabled (tracks s ! i)\<rparr>]\<rparr>
      else s)"

section \<open>CallModal: role and identifiers\<close>

text \<open>\<^verbatim>\<open>const isInitiator = !incomingCall\<close>\<close>

definition isInitiator :: "sys \<Rightarrow> bool" where
  "isInitiator s = (incomingCallProp s = None)"

text \<open>
  \<^verbatim>\<open>const partnerId = isInitiator && partner ? partner.uid : incomingCall?.callerId\<close>,
  followed by \<^verbatim>\<open>if (partnerId)\<close>: an empty string is falsy.
\<close>

definition partnerId :: "sys \<Rightarrow> string option" where
  "partnerId s =
     (if isInitiator s \<and> partner s \<noteq> None then map_option uid (partner s)
      else map_option callerId (incomingCallProp s))"

definition truthy :: "string option \<Rightarrow> bool" where
  "truthy v = (case v of None \<Rightarrow> False | Some x \<Rightarrow> x \<noteq> [])"

section \<open>CallModal: the unmount cleanup and App.endCall\<close>

text \<open>
  The function the mount effect returns, statement by statement. It stops the local
  stream's tracks, closes the peer connection, writes \<^verbatim>\<open>status: 'ended'\<close>, detaches the
  listeners and removes the invitation from the responder's inbox.
\<close>

definition stopLocalTracks :: "sys \<Rightarrow> sys" where
  "stopLocalTracks s =
     (case localStream s of None \<Rightarrow> s
      | Some sid \<Rightarrow> fold stopTrack (getTracks sid s) s)"

definition closePeerConnection :: "sys \<Rightarrow> sys" where
  "closePeerConnection s =
     (case peerConnection s of None \<Rightarrow> s
      | Some pc \<Rightarrow>
          logE PcClose (s\<lparr>peerConnection := Some (pc\<lparr>connectionState := StClosed\<rparr>)\<rparr>))"

text \<open>\<^verbatim>\<open>update(ref(db, `calls/${callId}`), { status: 'ended' })\<close>\<close>

definition markEnded :: "sys \<Rightarrow> sys" where
  "markEnded s = dbSetStatus (theCallId s) ''ended'' s"

definition offStatus :: "sys \<Rightarrow> sys" where
  "offStatus s = dbOff (StatusKey (theCallId s)) s"

definition cleanSignaling :: "sys \<Rightarrow> sys" where
  "cleanSignaling s =
     (if isInitiator s \<and> partner s \<noteq> None
      then (case partner s of None \<Rightarrow> s
            | Some p \<Rightarrow> dbOff (AnswerKey (theCallId s)) (dbRemoveIncomingCall (uid p) s))
      else if \<not> isInitiator s \<and> incomingCallProp s \<noteq> None
      then dbRemoveIncomingCall (uid (currentUser s)) s
      else s)"

definition offCandidates :: "sys \<Rightarrow> sys" where
  "offCandidates s =
     (if truthy (partnerId s)
      then (case partnerId s of None \<Rightarrow> s
            | Some p \<Rightarrow> dbOff (CandidatesKey (theCallId s) p) s)
      else s)"

definition cleanup :: "sys \<Rightarrow> sys" where
  "cleanup s =
     offCandidates (cleanSignaling (offStatus (markEnded (closePeerConnection (stopLocalTracks s)))))"

text \<open>
  \<^verbatim>\<open>App\<close> renders \<^verbatim>\<open>{isInCall && <CallModal .../>}\<close>: once \<open>isInCall\<close> is false a mounted
  modal is unmounted, and React runs the effect's cleanup at that moment.
\<close>

definition render :: "sys \<Rightarrow> sys" where
  "render s = (if mounted s \<and> \<not> isInCall s then (cleanup s)\<lparr>mounted := False\<rparr> else s)"

definition endCall :: "sys \<Rightarrow> sys" where
  "endCall s = render (s\<lparr>isInCall := False, incomingCall := None\<rparr>)"

section \<open>CallModal: the callbacks registered by the mount effect\<close>

definition handleStatusChange :: "string option \<Rightarrow> sys \<Rightarrow> sys" where
  "handleStatusChange v s = (if v = Some ''ended'' then endCall s else s)"

definition ontrack :: "nat list \<Rightarrow> sys \<Rightarrow> sys" where
  "ontrack evStreams s =
     (case remoteVideoRef s of None \<Rightarrow> s
      | Some _ \<Rightarrow> s\<lparr>remoteVideoRef := Some (case evStreams of [] \<Rightarrow> None | x # _ \<Rightarrow> Some x)\<rparr>)"

definition onicecandidate :: "iceCandidateData option \<Rightarrow> sys \<Rightarrow> sys" where
  "onicecandidate c s =
     (case c of None \<Rightarrow> s
      | Some cand \<Rightarrow> dbPushCandidate (theCallId s) (uid (currentUser s)) cand s)"

text \<open>
  The browser sets \<^verbatim>\<open>connectionState\<close> and fires the event; the handler reads the state
  back from the connection.
\<close>

definition onconnectionstatechange :: "connState \<Rightarrow> sys \<Rightarrow> sys" where
  "onconnectionstatechange st s =
     (case peerConnection s of None \<Rightarrow> s
      | Some pc \<Rightarrow>
          (let s1 = s\<lparr>peerConnection := Some (pc\<lparr>connectionState := st\<rparr>)\<rparr>
           in if st = StConnected then s1\<lparr>connectionStatus := ''Connected''\<rparr>
              else if st = StDisconnected \<or> st = StFailed
              then endCall (s1\<lparr>connectionStatus := ''Disconnected''\<rparr>)
              else s1))"

text \<open>
  The answer watch. The call to \<^verbatim>\<open>setRemoteDescription\<close> is not awaited: the handler
  returns with the call pending. \<^verbatim>\<open>currentRemoteDescription\<close>, which the guard reads,
  changes only when the browser settles the call.
\<close>

definition onAnswerValue :: "callSignal option \<Rightarrow> sys \<Rightarrow> sys" where
  "onAnswerValue data s =
     (case data of None \<Rightarrow> s
      | Some d \<Rightarrow>
          (case peerConnection s of None \<Rightarrow> s
           | Some pc \<Rightarrow>
               if currentRemoteDescription pc = None
               then logE (PcSetRemoteDescription d)
                      (s\<lparr>peerConnection :=
                           Some (pc\<lparr>pendingRemoteDescriptions :=
                                      pendingRemoteDescriptions pc @ [d]\<rparr>)\<rparr>)
               else s))"

text \<open>
  The browser settles the oldest pending \<^verbatim>\<open>setRemoteDescription\<close>. When it accepts
  (\<open>None\<close>), the description becomes the connection's \<^verbatim>\<open>currentRemoteDescription\<close>; a
  rejection is nobody's to catch and leaves the description as it was.
\<close>

definition remoteDescriptionSettled :: "domError option \<Rightarrow> sys \<Rightarrow> sys" where
  "remoteDescriptionSettled verdict s =
     (case peerConnection s of None \<Rightarrow> s
      | Some pc \<Rightarrow>
          (case pendingRemoteDescriptions pc of [] \<Rightarrow> s
           | d # rest \<Rightarrow>
               (case verdict of
                  None \<Rightarrow>
                    s\<lparr>peerConnection :=
                        Some (pc\<lparr>currentRemoteDescription := Some d,
                                 pendingRemoteDescriptions := rest\<rparr>)\<rparr>
                | Some _ \<Rightarrow>
                    s\<lparr>peerConnection := Some (pc\<lparr>pendingRemoteDescriptions := rest\<rparr>)\<rparr>)))"

text \<open>
  The remote-candidates watch. \<^verbatim>\<open>snapshot.forEach\<close> passes every child to
  \<^verbatim>\<open>addIceCandidate\<close>; the promises settle after the loop, in the order of the calls.
  A snapshot entry comes paired with the browser's verdict on its call: an accepted
  candidate is added to the connection, a rejection runs the \<^verbatim>\<open>catch\<close> handler, which
  prints it.
\<close>

definition addIceCandidate :: "iceCandidateData \<Rightarrow> sys \<Rightarrow> sys" where
  "addIceCandidate c s = logE (PcAddIceCandidate c) s"

definition iceCandidateSettled :: "iceCandidateData \<times> domError option \<Rightarrow> sys \<Rightarrow> sys" where
  "iceCandidateSettled cv s =
     (case snd cv of
        None \<Rightarrow> updPc (\<lambda>pc. pc\<lparr>addedIceCandidates := addedIceCandidates pc @ [fst cv]\<rparr>) s
      | Some _ \<Rightarrow> consoleError ''Ice error'' s)"

definition onRemoteCandidatesValue ::
    "(iceCandidateData \<times> domError option) list \<Rightarrow> sys \<Rightarrow> sys" where
  "onRemoteCandidatesValue snapshot s =
     (case peerConnection s of None \<Rightarrow> s
      | Some _ \<Rightarrow> fold iceCandidateSettled snapshot (fold addIceCandidate (map fst snapshot) s))"

section \<open>What the browser and the store answer\<close>

text \<open>
  The results of the asynchronous calls are inputs: \<open>Inl\<close> (or \<open>Some\<close>) is a rejected
  promise. Every definition below is stated for all of them.
\<close>

record env =
  gumResult :: "domError + track list"
  enumerateDevicesResult :: "domError + mediaDeviceInfo list"
  createOfferResult :: "domError + string"
  createAnswerResult :: "domError + string"
  setLocalDescriptionErr :: "domError option"
  setRemoteDescriptionErr :: "domError option"
  dbSetErr :: "domError option"
  replaceTrackErr :: "domError option"

text \<open>
  A resolved \<^verbatim>\<open>getUserMedia\<close>: fresh tracks and a fresh stream holding them. The new
  stream's identity is the heap's size before the call.
\<close>

definition allocStream :: "track list \<Rightarrow> sys \<Rightarrow> sys" where
  "allocStream ts s =
     s\<lparr>tracks := tracks s @ ts,
       streams := streams s @ [upt (length (tracks s)) (length (tracks s) + length ts)]\<rparr>"

definition pcAddTrack :: "nat \<Rightarrow> sys \<Rightarrow> sys" where
  "pcAddTrack i s = logE (PcAddTrack i) (updPc (\<lambda>pc. pc\<lparr>senders := senders pc @ [Some i]\<rparr>) s)"

definition newPeerConnection :: rtcPeerConnection where
  "newPeerConnection =
     \<lparr>senders = [], localDescription = None, currentRemoteDescription = None,
      pendingRemoteDescriptions = [], addedIceCandidates = [], connectionState = StNew\<rparr>"

section \<open>CallModal.startCall\<close>

text \<open>
  Each \<^verbatim>\<open>await\<close> is sequential composition: the continuation runs on the state the
  completed call left, and a rejection leaves the \<^verbatim>\<open>try\<close> block with the state reached
  so far. \<open>trace\<close> records a call when it is issued.
\<close>

definition catchBlock :: "sys \<Rightarrow> sys" where
  "catchBlock s =
     logE (SetTimeout 3000)
       ((logE (ConsoleError ''Error starting call:'') s)
          \<lparr>connectionStatus := ''Failed to access media devices'',
           timers := timers s @ [3000]\<rparr>)"

definition initiatorBranch :: "env \<Rightarrow> userProfile \<Rightarrow> sys \<Rightarrow> domError option \<times> sys" where
  "initiatorBranch e p s =
     (let s1 = logE PcCreateOffer (dbSetStatus (theCallId s) ''active'' s)
      in case createOfferResult e of
           Inl err \<Rightarrow> (Some err, s1)
         | Inr osdp \<Rightarrow>
             (let off = \<lparr>sigType = Offer, sdp = osdp\<rparr>;
                  s2 = logE (PcSetLocalDescription off) s1
              in case setLocalDescriptionErr e of
                   Some err \<Rightarrow> (Some err, s2)
                 | None \<Rightarrow>
                     (let s3 = updPc (\<lambda>pc. pc\<lparr>localDescription := Some off\<rparr>) s2;
                          callData =
                            \<lparr>callerId = uid (currentUser s3),
                             callerName = displayName (currentUser s3),
                             callerPhoto =
                               Some (case photoURL (currentUser s3) of None \<Rightarrow> [] | Some u \<Rightarrow> u),
                             callId = theCallId s3,
                             isVideo = isVideoProp s3,
                             offer = \<lparr>sigType = Offer, sdp = osdp\<rparr>\<rparr>
                      in case dbSetErr e of
                           Some err \<Rightarrow> (Some err, logE (DbWrite (IncomingCallKey (uid p))) s3)
                         | None \<Rightarrow>
                             (None, dbOnValue (AnswerKey (theCallId s3))
                                      (dbSetIncomingCall (uid p) callData s3)))))"

definition responderBranch :: "env \<Rightarrow> incomingCallData \<Rightarrow> sys \<Rightarrow> domError option \<times> sys" where
  "responderBranch e ic s =
     (let s1 = logE (PcSetRemoteDescription (offer ic)) s
      in case setRemoteDescriptionErr e of
           Some err \<Rightarrow> (Some err, s1)
         | None \<Rightarrow>
             (let s2 = logE PcCreateAnswer
                         (updPc (\<lambda>pc. pc\<lparr>currentRemoteDescription := Some (offer ic)\<rparr>) s1)
              in case createAnswerResult e of
                   Inl err \<Rightarrow> (Some err, s2)
                 | Inr asdp \<Rightarrow>
                     (let ans = \<lparr>sigType = Answer, sdp = asdp\<rparr>;
                          s3 = logE (PcSetLocalDescription ans) s2
                      in case setLocalDescriptionErr e of
                           Some err \<Rightarrow> (Some err, s3)
                         | None \<Rightarrow>
                             (let s4 = updPc (\<lambda>pc. pc\<lparr>localDescription := Some ans\<rparr>) s3
                              in case dbSetErr e of
                                   Some err \<Rightarrow> (Some err, logE (DbWrite (AnswerKey (theCallId s4))) s4)
                                 | None \<Rightarrow> (None, dbSetAnswer (theCallId s4) ans s4)))))"

definition listenRemoteCandidates :: "sys \<Rightarrow> sys" where
  "listenRemoteCandidates s =
     (if truthy (partnerId s)
      then (case partnerId s of None \<Rightarrow> s
            | Some p \<Rightarrow> dbOnValue (CandidatesKey (theCallId s) p) s)
      else s)"

text \<open>Steps 1 and 2 of \<^verbatim>\<open>startCall\<close>, after \<^verbatim>\<open>getUserMedia\<close> has resolved with tracks \<open>ts\<close>.\<close>

definition acquireLocalStream :: "track list \<Rightarrow> sys \<Rightarrow> sys" where
  "acquireLocalStream ts s =
     (allocStream ts s)
       \<lparr>localStream := Some (length (streams s)),
        localVideoRef :=
          (case localVideoRef s of None \<Rightarrow> None | Some _ \<Rightarrow> Some (Some (length (streams s))))\<rparr>"

definition addLocalTracks :: "sys \<Rightarrow> sys" where
  "addLocalTracks s =
     (case localStream s of None \<Rightarrow> s
      | Some sid \<Rightarrow> fold pcAddTrack (getTracks sid s) s)"

definition createPeerConnection :: "sys \<Rightarrow> sys" where
  "createPeerConnection s =
     addLocalTracks (logE NewPeerConnection (s\<lparr>peerConnection := Some newPeerConnection\<rparr>))"

text \<open>Step 3: \<^verbatim>\<open>if (isInitiator && partner) { ... } else if (incomingCall) { ... }\<close>\<close>

definition signaling :: "env \<Rightarrow> sys \<Rightarrow> domError option \<times> sys" where
  "signaling e s =
     (if isInitiator s \<and> partner s \<noteq> None
      then (case partner s of None \<Rightarrow> (None, s)
            | Some p \<Rightarrow> initiatorBranch e p s)
      else (case incomingCallProp s of None \<Rightarrow> (None, s)
            | Some ic \<Rightarrow> responderBranch e ic s))"

text \<open>Step 4 when the \<^verbatim>\<open>try\<close> block got that far, the \<^verbatim>\<open>catch\<close> block otherwise.\<close>

definition finishStart :: "domError option \<times> sys \<Rightarrow> sys" where
  "finishStart r =
     (case r of (Some err, s) \<Rightarrow> catchBlock s | (None, s) \<Rightarrow> listenRemoteCandidates s)"

definition requestLocalMedia :: "sys \<Rightarrow> sys" where
  "requestLocalMedia s =
     logE (GetUserMedia \<lparr>video = (if isVideoProp s then FacingUser else NoVideo), audio = True\<rparr>) s"

definition startCall :: "env \<Rightarrow> sys \<Rightarrow> sys" where
  "startCall e s =
     (case gumResult e of
        Inl err \<Rightarrow> catchBlock (requestLocalMedia s)
      | Inr ts \<Rightarrow>
          finishStart (signaling e (createPeerConnection (acquireLocalStream ts (requestLocalMedia s)))))"

section \<open>CallModal: the controls\<close>

definition toggleMute :: "sys \<Rightarrow> sys" where
  "toggleMute s =
     (case localStream s of None \<Rightarrow> s
      | Some sid \<Rightarrow> (fold flipEnabled (getAudioTracks sid s) s)\<lparr>isMuted := \<not> isMuted s\<rparr>)"

definition toggleVideo :: "sys \<Rightarrow> sys" where
  "toggleVideo s =
     (case localStream s of None \<Rightarrow> s
      | Some sid \<Rightarrow>
          if isVideoProp s
          then (fold flipEnabled (getVideoTracks sid s) s)\<lparr>isCameraOff := \<not> isCameraOff s\<rparr>
          else s)"

text \<open>\<^verbatim>\<open>Array.prototype.findIndex\<close>: the first index that satisfies the test, or -1.\<close>

fun findIndex :: "('a \<Rightarrow> bool) \<Rightarrow> 'a list \<Rightarrow> int" where
  "findIndex P [] = - 1"
| "findIndex P (x # xs) =
     (if P x then 0 else (let i = findIndex P xs in if i < 0 then - 1 else i + 1))"

text \<open>
  The JavaScript remainder \<^verbatim>\<open>a % b\<close> on integers: the sign of the dividend, and \<^verbatim>\<open>NaN\<close>
  (here \<open>None\<close>) for a zero divisor. Indexing an array with \<^verbatim>\<open>NaN\<close> or out of range
  gives \<^verbatim>\<open>undefined\<close>.
\<close>

definition jsRem :: "int \<Rightarrow> int \<Rightarrow> int option" where
  "jsRem a b = (if b = 0 then None else Some (sgn a * (\<bar>a\<bar> mod \<bar>b\<bar>)))"

definition arrayAt :: "'a list \<Rightarrow> int option \<Rightarrow> 'a option" where
  "arrayAt xs i =
     (case i of None \<Rightarrow> None
      | Some k \<Rightarrow> if 0 \<le> k \<and> nat k < length xs then Some (xs ! nat k) else None)"

definition nextDevice :: "mediaDeviceInfo list \<Rightarrow> string option \<Rightarrow> mediaDeviceInfo option" where
  "nextDevice videoInputs currentDeviceId =
     (let currentIndex = findIndex (\<lambda>d. Some (deviceId d) = currentDeviceId) videoInputs
      in arrayAt videoInputs (jsRem (currentIndex + 1) (int (length videoInputs))))"

text \<open>\<^verbatim>\<open>getSenders().find(s => s.track?.kind === 'video')\<close>, as the sender's position.\<close>

definition findVideoSender :: "sys \<Rightarrow> nat option" where
  "findVideoSender s =
     (case peerConnection s of None \<Rightarrow> None
      | Some pc \<Rightarrow>
          (let j = findIndex (\<lambda>t. case t of None \<Rightarrow> False | Some i \<Rightarrow> kindOf s i = Some VideoTrack)
                     (senders pc)
           in if j < 0 then None else Some (nat j)))"

text \<open>
  The body of \<^verbatim>\<open>if (nextDevice) { ... }\<close>. \<^verbatim>\<open>removeTrack\<close> and \<^verbatim>\<open>addTrack\<close> throw a
  \<^verbatim>\<open>TypeError\<close> on \<^verbatim>\<open>undefined\<close>; \<^verbatim>\<open>replaceTrack(undefined)\<close> clears the sender's track.
\<close>

definition removeTrackFrom :: "nat \<Rightarrow> nat \<Rightarrow> sys \<Rightarrow> sys" where
  "removeTrackFrom sid t s = s\<lparr>streams := (streams s)[sid := removeAll t (getTracks sid s)]\<rparr>"

definition addTrackTo :: "nat \<Rightarrow> nat \<Rightarrow> sys \<Rightarrow> sys" where
  "addTrackTo sid t s =
     (if t \<in> set (getTracks sid s) then s
      else s\<lparr>streams := (streams s)[sid := getTracks sid s @ [t]]\<rparr>)"

text \<open>\<^verbatim>\<open>if (localVideoRef.current) localVideoRef.current.srcObject = localStream.current\<close>\<close>

definition showLocalStream :: "sys \<Rightarrow> sys" where
  "showLocalStream s =
     s\<lparr>localVideoRef := (case localVideoRef s of None \<Rightarrow> None | Some _ \<Rightarrow> Some (localStream s))\<rparr>"

definition swapLocalTrack :: "nat \<Rightarrow> nat option \<Rightarrow> nat option \<Rightarrow> sys \<Rightarrow> sys" where
  "swapLocalTrack sid currentTrack newTrack s =
     (case currentTrack of
        None \<Rightarrow> consoleError ''Error switching camera:'' s
      | Some ct \<Rightarrow>
          (case newTrack of
             None \<Rightarrow> consoleError ''Error switching camera:'' (removeTrackFrom sid ct s)
           | Some nt \<Rightarrow> showLocalStream (addTrackTo sid nt (removeTrackFrom sid ct s))))"

definition replaceSenderTrack :: "env \<Rightarrow> nat \<Rightarrow> nat option \<Rightarrow> nat option \<Rightarrow> sys \<Rightarrow> sys" where
  "replaceSenderTrack e sid currentTrack newTrack s =
     (case findVideoSender s of
        None \<Rightarrow> swapLocalTrack sid currentTrack newTrack s
      | Some j \<Rightarrow>
          (case replaceTrackErr e of
             Some err \<Rightarrow>
               consoleError ''Error switching camera:'' (logE (SenderReplaceTrack j newTrack) s)
           | None \<Rightarrow>
               swapLocalTrack sid currentTrack newTrack
                 (updPc (\<lambda>pc. pc\<lparr>senders := (senders pc)[j := newTrack]\<rparr>)
                    (logE (SenderReplaceTrack j newTrack) s))))"

definition firstVideoTrack :: "nat \<Rightarrow> sys \<Rightarrow> nat option" where
  "firstVideoTrack sid s = (case getVideoTracks sid s of [] \<Rightarrow> None | t # _ \<Rightarrow> Some t)"

definition requestCamera :: "mediaDeviceInfo \<Rightarrow> sys \<Rightarrow> sys" where
  "requestCamera nd s =
     logE (GetUserMedia \<lparr>video = ExactDevice (deviceId nd), audio = False\<rparr>) s"

definition replaceVideoTrack ::
    "env \<Rightarrow> nat \<Rightarrow> nat option \<Rightarrow> mediaDeviceInfo \<Rightarrow> sys \<Rightarrow> sys" where
  "replaceVideoTrack e sid currentTrack nd s =
     (case gumResult e of
        Inl err \<Rightarrow> consoleError ''Error switching camera:'' (requestCamera nd s)
      | Inr ts \<Rightarrow>
          replaceSenderTrack e sid currentTrack
            (firstVideoTrack (length (streams s)) (allocStream ts (requestCamera nd s)))
            (allocStream ts (requestCamera nd s)))"

definition switchCamera :: "env \<Rightarrow> sys \<Rightarrow> sys" where
  "switchCamera e s =
     (case localStream s of None \<Rightarrow> s
      | Some sid \<Rightarrow>
          if \<not> hasMultipleCameras s then s
          else
            (case enumerateDevicesResult e of
               Inl err \<Rightarrow> consoleError ''Error switching camera:'' (logE EnumerateDevices s)
             | Inr devices \<Rightarrow>
                 (let videoInputs = filter (\<lambda>d. deviceKind d = VideoInput) devices;
                      currentTrack = firstVideoTrack sid s;
                      currentDeviceId =
                        (case currentTrack of None \<Rightarrow> None
                         | Some t \<Rightarrow> settingsDeviceId (tracks s ! t))
                  in case nextDevice videoInputs currentDeviceId of
                       None \<Rightarrow> logE EnumerateDevices s
                     | Some nd \<Rightarrow>
                         replaceVideoTrack e sid currentTrack nd (logE EnumerateDevices s))))"

section \<open>Mounting the CallModal, and the App's call handlers\<close>

text \<open>The decimal digits of \<^verbatim>\<open>Date.now()\<close> inside the template string of the call id.\<close>

function showNat :: "nat \<Rightarrow> string" where
  "showNat n =
     (if n < 10 then [''0123456789'' ! n]
      else showNat (n div 10) @ [''0123456789'' ! (n mod 10)])"
  by pat_completeness auto
termination
  by (relation "measure id") auto

text \<open>
  The \<^verbatim>\<open>then\<close> of the mount-time \<^verbatim>\<open>enumerateDevices()\<close>:
  \<^verbatim>\<open>setHasMultipleCameras(videoInputs.length > 1)\<close>.
\<close>

definition onDevicesEnumerated :: "mediaDeviceInfo list \<Rightarrow> sys \<Rightarrow> sys" where
  "onDevicesEnumerated devices s =
     s\<lparr>hasMultipleCameras := (length (filter (\<lambda>d. deviceKind d = VideoInput) devices) > 1)\<rparr>"

text \<open>
  The first render of \<^verbatim>\<open>CallModal\<close> and the synchronous part of its mount effect. \<^verbatim>\<open>App\<close>
  renders the modal only below its \<^verbatim>\<open>!user || !userProfile\<close> guard. \<open>now\<close> is
  \<^verbatim>\<open>Date.now()\<close>. \<^verbatim>\<open>startCall()\<close> itself runs as a separate step.
\<close>

definition mountCallModal :: "nat \<Rightarrow> sys \<Rightarrow> sys" where
  "mountCallModal now s =
     (case userProfile s of None \<Rightarrow> s
      | Some u \<Rightarrow>
          (let cid = (case incomingCall s of Some ic \<Rightarrow> callId ic
                      | None \<Rightarrow> uid u @ ''_'' @ showNat now);
               s1 = s\<lparr>mounted := True, currentUser := u, partner := selectedPartner s,
                       incomingCallProp := incomingCall s, isVideoProp := isVideoCall s,
                       theCallId := cid,
                       isMuted := False, isCameraOff := \<not> isVideoCall s,
                       connectionStatus := ''Connecting...'', hasMultipleCameras := False,
                       localVideoRef := Some None, remoteVideoRef := Some None,
                       peerConnection := None, localStream := None\<rparr>
           in dbOnValue (StatusKey cid) (logE EnumerateDevices s1)))"

definition renderMount :: "nat \<Rightarrow> sys \<Rightarrow> sys" where
  "renderMount now s = (if isInCall s \<and> \<not> mounted s then mountCallModal now s else s)"

definition appStartCall :: "bool \<Rightarrow> nat \<Rightarrow> sys \<Rightarrow> sys" where
  "appStartCall v now s = renderMount now (s\<lparr>isVideoCall := v, isInCall := True\<rparr>)"

definition acceptCall :: "nat \<Rightarrow> sys \<Rightarrow> sys" where
  "acceptCall now s =
     (case incomingCall s of None \<Rightarrow> s
      | Some ic \<Rightarrow> renderMount now (s\<lparr>isVideoCall := isVideo ic, isInCall := True\<rparr>))"

definition rejectCall :: "sys \<Rightarrow> sys" where
  "rejectCall s =
     (case userProfile s of None \<Rightarrow> s | Some u \<Rightarrow> dbRemoveIncomingCall (uid u) s)
       \<lparr>incomingCall := None\<rparr>"

section \<open>Events\<close>

text \<open>
  Everything that can run code of the call: a store watch firing (only while its
  listener is attached), the browser settling a pending call, a callback of the peer
  connection (only once there is one), a
  button of the modal (only while it is mounted), the start of the call, a timer, and
  the call buttons of \<^verbatim>\<open>App\<close>.
\<close>

datatype event =
    EvDevices "mediaDeviceInfo list"
  | EvStartCall env
  | EvStatus "string option"
  | EvAnswer "callSignal option"
  | EvRemoteDescriptionSettled "domError option"
  | EvRemoteCandidates "(iceCandidateData \<times> domError option) list"
  | EvTrack "nat list"
  | EvIceCandidate "iceCandidateData option"
  | EvConnectionState connState
  | EvToggleMute
  | EvToggleVideo
  | EvSwitchCamera env
  | EvEndCallButton
  | EvTimer
  | EvAppStartCall bool nat
  | EvAcceptCall nat
  | EvRejectCall

definition watching :: "dbKey \<Rightarrow> sys \<Rightarrow> bool" where
  "watching k s = (k \<in> set (listeners s))"

fun step :: "event \<Rightarrow> sys \<Rightarrow> sys" where
  "step (EvDevices ds) s = onDevicesEnumerated ds s"
| "step (EvStartCall e) s = startCall e s"
| "step (EvStatus v) s =
     (if watching (StatusKey (theCallId s)) s then handleStatusChange v s else s)"
| "step (EvAnswer d) s =
     (if watching (AnswerKey (theCallId s)) s then onAnswerValue d s else s)"
| "step (EvRemoteDescriptionSettled v) s = remoteDescriptionSettled v s"
| "step (EvRemoteCandidates cs) s =
     (case partnerId s of None \<Rightarrow> s
      | Some p \<Rightarrow>
          if watching (CandidatesKey (theCallId s) p) s then onRemoteCandidatesValue cs s else s)"
| "step (EvTrack ss) s = (if peerConnection s = None then s else ontrack ss s)"
| "step (EvIceCandidate c) s = (if peerConnection s = None then s else onicecandidate c s)"
| "step (EvConnectionState st) s = onconnectionstatechange st s"
| "step EvToggleMute s = (if mounted s then toggleMute s else s)"
| "step EvToggleVideo s = (if mounted s then toggleVideo s else s)"
| "step (EvSwitchCamera e) s = (if mounted s then switchCamera e s else s)"
| "step EvEndCallButton s = (if mounted s then endCall s else s)"
| "step EvTimer s =
     (case timers s of [] \<Rightarrow> s | _ # rest \<Rightarrow> endCall (s\<lparr>timers := rest\<rparr>))"
| "step (EvAppStartCall v now) s = appStartCall v now s"
| "step (EvAcceptCall now) s = acceptCall now s"
| "step EvRejectCall s = rejectCall s"

definition run :: "event list \<Rightarrow> sys \<Rightarrow> sys" where
  "run es s = fold step es s"

section \<open>Auxiliary notions\<close>

text \<open>What stopping the tracks \<open>xs\<close> does to the track heap.\<close>

definition endTracks :: "nat list \<Rightarrow> track list \<Rightarrow> track list" where
  "endTracks xs ts =
     fold (\<lambda>i ts. if i < length ts then ts[i := (ts ! i)\<lparr>readyState := Ended\<rparr>] else ts) xs ts"

text \<open>The outside calls that \<open>f\<close> issues when run from \<open>s\<close>, in order.\<close>

definition issued :: "(sys \<Rightarrow> sys) \<Rightarrow> sys \<Rightarrow> effect list" where
  "issued f s = drop (length (trace s)) (trace (f s))"

text \<open>Every sender of the peer connection carries a track of the heap, or none.\<close>

definition sendersValid :: "sys \<Rightarrow> bool" where
  "sendersValid s =
     (case peerConnection s of None \<Rightarrow> True
      | Some pc \<Rightarrow> list_all (\<lambda>x. case x of None \<Rightarrow> True | Some i \<Rightarrow> i < length (tracks s)) (senders pc))"

text \<open>
  Of a snapshot paired with the browser's verdicts: the candidates it accepts, the
  lines the \<^verbatim>\<open>catch\<close> handler prints, and all outside calls the watch makes for it.
\<close>

definition acceptedOf :: "(iceCandidateData \<times> domError option) list \<Rightarrow> iceCandidateData list" where
  "acceptedOf snapshot = map fst (filter (\<lambda>cv. snd cv = None) snapshot)"

definition rejectionsOf :: "(iceCandidateData \<times> domError option) list \<Rightarrow> effect list" where
  "rejectionsOf snapshot =
     map (\<lambda>cv. ConsoleError ''Ice error'') (filter (\<lambda>cv. snd cv \<noteq> None) snapshot)"

definition relayCalls :: "(iceCandidateData \<times> domError option) list \<Rightarrow> effect list" where
  "relayCalls snapshot = map (\<lambda>cv. PcAddIceCandidate (fst cv)) snapshot @ rejectionsOf snapshot"

text \<open>The candidates the peer connection has accepted so far.\<close>

definition appliedCandidates :: "sys \<Rightarrow> iceCandidateData list" where
  "appliedCandidates s =
     (case peerConnection s of None \<Rightarrow> [] | Some pc \<Rightarrow> addedIceCandidates pc)"

section \<open>Concrete parties and browser answers, for the worked examples\<close>

definition alice :: userProfile where
  "alice = \<lparr>uid = ''alice'', email = ''a@example.org'', displayName = ''Alice'', photoURL = None\<rparr>"

definition bob :: userProfile where
  "bob = \<lparr>uid = ''bob'', email = ''b@example.org'', displayName = ''Bob'', photoURL = None\<rparr>"

definition emptyDb :: database where
  "emptyDb = \<lparr>statusAt = (\<lambda>_. None), answerAt = (\<lambda>_. None), candidatesAt = (\<lambda>_. []),
              incomingCallAt = (\<lambda>_. None)\<rparr>"

text \<open>Alice's \<^verbatim>\<open>App\<close>, logged in, with Bob's chat selected and no call yet.\<close>

definition sysA :: sys where
  "sysA = \<lparr>userProfile = Some alice, selectedPartner = Some bob, isInCall = False,
           incomingCall = None, isVideoCall = False,
           mounted = False, currentUser = alice, partner = None, incomingCallProp = None,
           isVideoProp = False, theCallId = [],
           isMuted = False, isCameraOff = False, connectionStatus = [],
           hasMultipleCameras = False,
           localVideoRef = None, remoteVideoRef = None, peerConnection = None,
           localStream = None,
           db = emptyDb, listeners = [], tracks = [], streams = [], timers = [], trace = []\<rparr>"

definition invitation :: incomingCallData where
  "invitation = \<lparr>callerId = ''alice'', callerName = ''Alice'', callerPhoto = Some [],
                  callId = ''alice_1000'', isVideo = True,
                  offer = \<lparr>sigType = Offer, sdp = ''o''\<rparr>\<rparr>"

text \<open>Bob's \<^verbatim>\<open>App\<close>, logged in, with Alice's invitation in his inbox.\<close>

definition sysB :: sys where
  "sysB = sysA\<lparr>userProfile := Some bob, selectedPartner := None,
                incomingCall := Some invitation, currentUser := bob,
                db := emptyDb\<lparr>statusAt := [''alice_1000'' \<mapsto> ''active''],
                               incomingCallAt := [''bob'' \<mapsto> invitation]\<rparr>\<rparr>"

definition mic :: track where
  "mic = \<lparr>kind = AudioTrack, settingsDeviceId = Some ''mic0'', enabled = True, readyState = Live\<rparr>"

definition frontCam :: track where
  "frontCam = \<lparr>kind = VideoTrack, settingsDeviceId = Some ''cam0'', enabled = True, readyState = Live\<rparr>"

definition backCam :: track where
  "backCam = \<lparr>kind = VideoTrack, settingsDeviceId = Some ''cam1'', enabled = True, readyState = Live\<rparr>"

definition twoCameras :: "mediaDeviceInfo list" where
  "twoCameras = [\<lparr>deviceId = ''mic0'', deviceKind = AudioInput\<rparr>,
                 \<lparr>deviceId = ''cam0'', deviceKind = VideoInput\<rparr>,
                 \<lparr>deviceId = ''cam1'', deviceKind = VideoInput\<rparr>]"

definition oneCamera :: "mediaDeviceInfo list" where
  "oneCamera = [\<lparr>deviceId = ''mic0'', deviceKind = AudioInput\<rparr>,
                \<lparr>deviceId = ''cam0'', deviceKind = VideoInput\<rparr>]"

text \<open>A browser that grants everything; \<open>gumResult\<close> is the microphone and the front camera.\<close>

definition okEnv :: env where
  "okEnv = \<lparr>gumResult = Inr [mic, frontCam], enumerateDevicesResult = Inr twoCameras,
            createOfferResult = Inr ''o'', createAnswerResult = Inr ''a'',
            setLocalDescriptionErr = None, setRemoteDescriptionErr = None,
            dbSetErr = None, replaceTrackErr = None\<rparr>"

definition cand1 :: iceCandidateData where
  "cand1 = \<lparr>candidate = ''candidate:1'', sdpMid = ''0'', sdpMLineIndex = 0\<rparr>"

definition cand2 :: iceCandidateData where
  "cand2 = \<lparr>candidate = ''candidate:2'', sdpMid = ''0'', sdpMLineIndex = 0\<rparr>"

text \<open>Two answers with different payloads.\<close>

definition answerA :: callSignal where
  "answerA = \<lparr>sigType = Answer, sdp = ''a''\<rparr>"

definition answerB :: callSignal where
  "answerB = \<lparr>sigType = Answer, sdp = ''b''\<rparr>"

text \<open>Alice has pressed the video-call button: the modal is mounted, the call not yet started.\<close>

definition aliceMounted :: sys where
  "aliceMounted = run [EvAppStartCall True 1000, EvDevices twoCameras] sysA"

text \<open>Alice has started a video call to Bob and her browser has granted everything.\<close>

definition aliceInCall :: sys where
  "aliceInCall = run [EvAppStartCall True 1000, EvDevices twoCameras, EvStartCall okEnv] sysA"

text \<open>
  Bob has accepted Alice's invitation, his browser has granted everything, and his peer
  connection has found one candidate.
\<close>

definition bobInCall :: sys where
  "bobInCall = run [EvAcceptCall 2000, EvStartCall okEnv, EvIceCandidate (Some cand1)] sysB"

text \<open>Bob has accepted the invitation: the modal is mounted, the call not yet started.\<close>

definition bobMounted :: sys where
  "bobMounted = run [EvAcceptCall 2000] sysB"

text \<open>A browser in which the user refuses the camera and the microphone.\<close>

definition deniedEnv :: env where
  "deniedEnv = okEnv\<lparr>gumResult := Inl NotAllowedError\<rparr>"

text \<open>A browser whose next \<^verbatim>\<open>getUserMedia\<close> delivers the back camera.\<close>

definition swEnv :: env where
  "swEnv = okEnv\<lparr>gumResult := Inr [backCam]\<rparr>"

text \<open>
  A browser that has lost the second camera since the call view was mounted: it now
  enumerates a single camera, and delivers it on request.
\<close>

definition staleEnv :: env where
  "staleEnv = okEnv\<lparr>enumerateDevicesResult := Inr oneCamera, gumResult := Inr [frontCam]\<rparr>"

text \<open>
  The same, after the browser has handed out new device identifiers: the identifier of
  the running camera track is no longer among the enumerated ones.
\<close>

definition otherCameras :: "mediaDeviceInfo list" where
  "otherCameras = [\<lparr>deviceId = ''camA'', deviceKind = VideoInput\<rparr>,
                   \<lparr>deviceId = ''mic0'', deviceKind = AudioInput\<rparr>,
                   \<lparr>deviceId = ''camB'', deviceKind = VideoInput\<rparr>]"

definition renumberedEnv :: env where
  "renumberedEnv = swEnv\<lparr>enumerateDevicesResult := Inr otherCameras\<rparr>"

section \<open>Evaluation rules\<close>

declare showNat.simps [simp del]

lemmas fixture_defs =
  alice_def bob_def emptyDb_def sysA_def sysB_def invitation_def mic_def frontCam_def
  backCam_def twoCameras_def oneCamera_def okEnv_def cand1_def cand2_def answerA_def answerB_def
  aliceMounted_def aliceInCall_def bobInCall_def bobMounted_def deniedEnv_def swEnv_def staleEnv_def
  otherCameras_def
  renumberedEnv_def

lemmas call_defs =
  logE_def dbSetStatus_def dbSetAnswer_def dbSetIncomingCall_def dbRemoveIncomingCall_def
  dbPushCandidate_def dbOnValue_def dbOff_def getTracks_def kindOf_def getVideoTracks_def
  getAudioTracks_def stopTrack_def flipEnabled_def isInitiator_def partnerId_def truthy_def
  stopLocalTracks_def closePeerConnection_def markEnded_def offStatus_def
  cleanSignaling_def offCandidates_def cleanup_def render_def endCall_def handleStatusChange_def ontrack_def onicecandidate_def
  onconnectionstatechange_def onAnswerValue_def remoteDescriptionSettled_def
  addIceCandidate_def iceCandidateSettled_def
  onRemoteCandidatesValue_def allocStream_def updPc_def pcAddTrack_def newPeerConnection_def
  catchBlock_def initiatorBranch_def responderBranch_def listenRemoteCandidates_def
  acquireLocalStream_def addLocalTracks_def createPeerConnection_def signaling_def
  finishStart_def requestLocalMedia_def startCall_def toggleMute_def toggleVideo_def jsRem_def arrayAt_def nextDevice_def
  consoleError_def findVideoSender_def removeTrackFrom_def addTrackTo_def showLocalStream_def
  swapLocalTrack_def replaceSenderTrack_def firstVideoTrack_def requestCamera_def
  replaceVideoTrack_def
  switchCamera_def onDevicesEnumerated_def mountCallModal_def renderMount_def
  appStartCall_def acceptCall_def rejectCall_def watching_def run_def appliedCandidates_def
  acceptedOf_def rejectionsOf_def relayCalls_def
  Let_def

lemma showNat_1000: "showNat 1000 = ''1000''"
  by (simp add: showNat.simps)

section \<open>The candidate relay\<close>

lemma fold_addIceCandidate_eq:
  "fold addIceCandidate cs s = s\<lparr>trace := trace s @ map PcAddIceCandidate cs\<rparr>"
proof (induction cs arbitrary: s)
  case Nil
  show ?case by simp
next
  case (Cons c cs)
  show ?case by (simp add: Cons.IH) (simp add: addIceCandidate_def logE_def)
qed

lemma iceCandidateSettled_pc:
  "peerConnection (iceCandidateSettled cv s) =
     map_option (\<lambda>pc. pc\<lparr>addedIceCandidates := addedIceCandidates pc @ acceptedOf [cv]\<rparr>)
       (peerConnection s)"
  by (cases "peerConnection s"; cases "snd cv")
     (simp_all add: iceCandidateSettled_def updPc_def consoleError_def logE_def acceptedOf_def)

lemma iceCandidateSettled_trace:
  "trace (iceCandidateSettled cv s) = trace s @ rejectionsOf [cv]"
  by (cases "peerConnection s"; cases "snd cv")
     (simp_all add: iceCandidateSettled_def updPc_def consoleError_def logE_def rejectionsOf_def)

lemma acceptedOf_Cons: "acceptedOf (cv # snapshot) = acceptedOf [cv] @ acceptedOf snapshot"
  by (simp add: acceptedOf_def)

lemma rejectionsOf_Cons: "rejectionsOf (cv # snapshot) = rejectionsOf [cv] @ rejectionsOf snapshot"
  by (simp add: rejectionsOf_def)

lemma fold_iceCandidateSettled_pc:
  "peerConnection (fold iceCandidateSettled snapshot s) =
     map_option (\<lambda>pc. pc\<lparr>addedIceCandidates := addedIceCandidates pc @ acceptedOf snapshot\<rparr>)
       (peerConnection s)"
proof (induction snapshot arbitrary: s)
  case Nil
  show ?case by (cases "peerConnection s") (simp_all add: acceptedOf_def)
next
  case (Cons cv snapshot)
  show ?case
    by (cases "peerConnection s")
       (simp_all add: Cons.IH iceCandidateSettled_pc acceptedOf_Cons [of cv snapshot])
qed

lemma fold_iceCandidateSettled_trace:
  "trace (fold iceCandidateSettled snapshot s) = trace s @ rejectionsOf snapshot"
proof (induction snapshot arbitrary: s)
  case Nil
  show ?case by (simp add: rejectionsOf_def)
next
  case (Cons cv snapshot)
  show ?case
    by (simp add: Cons.IH iceCandidateSettled_trace rejectionsOf_Cons [of cv snapshot])
qed

lemma onRemoteCandidatesValue_pc:
  "peerConnection (onRemoteCandidatesValue snapshot s) =
     map_option (\<lambda>pc. pc\<lparr>addedIceCandidates := addedIceCandidates pc @ acceptedOf snapshot\<rparr>)
       (peerConnection s)"
  by (cases "peerConnection s")
     (simp_all add: onRemoteCandidatesValue_def fold_iceCandidateSettled_pc
        fold_addIceCandidate_eq)

lemma onRemoteCandidatesValue_trace:
  "trace (onRemoteCandidatesValue snapshot s) =
     trace s @ (if peerConnection s = None then [] else relayCalls snapshot)"
  by (cases "peerConnection s")
     (simp_all add: onRemoteCandidatesValue_def fold_iceCandidateSettled_trace
        fold_addIceCandidate_eq relayCalls_def comp_def)

text \<open>
  C1, as the code has it. The relay keeps no record of what it has applied. For every
  sequence \<open>ns\<close> of notifications: each notification passes all of its entries to
  \<^verbatim>\<open>addIceCandidate\<close>, in order, and then prints one error for each call the browser
  rejected; the outside calls are the concatenation of these, notification by
  notification. The candidates the peer connection has then accepted are the earlier
  ones followed by the accepted entries of every notification, so a candidate is passed,
  and if accepted added, once for each time it is delivered.
\<close>

theorem C1_relay_applies_every_delivered_entry:
  "map_option addedIceCandidates (peerConnection (fold onRemoteCandidatesValue ns s)) =
     map_option (\<lambda>pc. addedIceCandidates pc @ concat (map acceptedOf ns)) (peerConnection s)
   \<and> trace (fold onRemoteCandidatesValue ns s) =
       trace s @ (if peerConnection s = None then [] else concat (map relayCalls ns))"
proof (induction ns arbitrary: s)
  case Nil
  show ?case by (cases "peerConnection s") simp_all
next
  case (Cons n ns)
  show ?case
    by (cases "peerConnection s")
       (simp_all add: Cons.IH onRemoteCandidatesValue_pc onRemoteCandidatesValue_trace)
qed

text \<open>
  C1 as stated fails. Alice starts a video call; the watch on Bob's candidates fires
  with \<open>[cand1]\<close> and then, after Bob has pushed a second candidate, with the full set
  \<open>[cand1, cand2]\<close>; the browser accepts every call. \<open>cand1\<close> is applied twice.
\<close>

theorem C1_counterexample:
  "appliedCandidates
     (run [EvStartCall okEnv, EvRemoteCandidates [(cand1, None)],
           EvRemoteCandidates [(cand1, None), (cand2, None)]]
        (appStartCall True 1000 sysA)) = [cand1, cand1, cand2]
   \<and> count_list
       (appliedCandidates
          (run [EvStartCall okEnv, EvRemoteCandidates [(cand1, None)],
                EvRemoteCandidates [(cand1, None), (cand2, None)]]
             (appStartCall True 1000 sysA))) cand1 = 2"
  by (simp add: fixture_defs call_defs showNat_1000)

section \<open>The answer watch\<close>

lemma onAnswerValue_applied:
  "peerConnection s = Some pc \<Longrightarrow> currentRemoteDescription pc \<noteq> None \<Longrightarrow>
   onAnswerValue data s = s"
  by (cases data) (auto simp add: onAnswerValue_def)

lemma fold_onAnswerValue_applied:
  "peerConnection s = Some pc \<Longrightarrow> currentRemoteDescription pc \<noteq> None \<Longrightarrow>
   fold onAnswerValue ds s = s"
  by (induction ds) (simp_all add: onAnswerValue_applied)

lemma fold_onAnswerValue_no_connection:
  "peerConnection s = None \<Longrightarrow> fold onAnswerValue ds s = s"
  by (induction ds) (simp_all add: onAnswerValue_def split: option.splits)

text \<open>
  C2, as the code has it. Take a session with a peer connection that has no remote
  description, current or pending. The first answer notification issues
  \<^verbatim>\<open>setRemoteDescription\<close>; once the browser has resolved that call, the description is
  the session's current remote description and the rest of the connection is as
  before. From then on every further notification, with the same payload, another
  payload or none, leaves the whole state unchanged: the guard skips the call, nothing is
  issued, thrown or printed (the handler has no failing exit), and nothing is left
  pending for the browser to settle.
\<close>

theorem C2_applied_remote_description_is_kept:
  assumes "peerConnection s = Some pc"
    and "currentRemoteDescription pc = None"
    and "pendingRemoteDescriptions pc = []"
  shows "peerConnection (remoteDescriptionSettled None (onAnswerValue (Some d1) s)) =
           Some (pc\<lparr>currentRemoteDescription := Some d1\<rparr>)
       \<and> issued (\<lambda>s. remoteDescriptionSettled None (onAnswerValue (Some d1) s)) s =
           [PcSetRemoteDescription d1]
       \<and> fold onAnswerValue ds (remoteDescriptionSettled None (onAnswerValue (Some d1) s)) =
           remoteDescriptionSettled None (onAnswerValue (Some d1) s)
       \<and> remoteDescriptionSettled v (remoteDescriptionSettled None (onAnswerValue (Some d1) s)) =
           remoteDescriptionSettled None (onAnswerValue (Some d1) s)"
proof -
  let ?s1 = "remoteDescriptionSettled None (onAnswerValue (Some d1) s)"
  have pc1: "peerConnection ?s1 = Some (pc\<lparr>currentRemoteDescription := Some d1\<rparr>)"
    using assms by (simp add: onAnswerValue_def remoteDescriptionSettled_def logE_def)
  have tr: "issued (\<lambda>s. remoteDescriptionSettled None (onAnswerValue (Some d1) s)) s =
           [PcSetRemoteDescription d1]"
    using assms by (simp add: issued_def onAnswerValue_def remoteDescriptionSettled_def logE_def)
  have skip: "fold onAnswerValue ds ?s1 = ?s1"
    by (rule fold_onAnswerValue_applied [OF pc1]) simp
  have idle: "remoteDescriptionSettled v ?s1 = ?s1"
    using assms(3) by (simp add: remoteDescriptionSettled_def [of v] pc1)
  from pc1 tr skip idle show ?thesis by (intro conjI)
qed

text \<open>
  Alice's call: Bob's answer arrives and is applied; the same answer and a different one
  arrive afterwards.
\<close>

theorem C2_witness:
  "map_option currentRemoteDescription (peerConnection aliceInCall) = Some None
   \<and> map_option pendingRemoteDescriptions (peerConnection aliceInCall) = Some []
   \<and> map_option currentRemoteDescription
       (peerConnection (remoteDescriptionSettled None (onAnswerValue (Some answerA) aliceInCall)))
       = Some (Some answerA)
   \<and> fold onAnswerValue [Some answerA, Some answerB]
       (remoteDescriptionSettled None (onAnswerValue (Some answerA) aliceInCall)) =
       remoteDescriptionSettled None (onAnswerValue (Some answerA) aliceInCall)"
proof -
  obtain pc where pc: "peerConnection aliceInCall = Some pc"
    and c: "currentRemoteDescription pc = None" and p: "pendingRemoteDescriptions pc = []"
    by (simp add: fixture_defs call_defs showNat_1000)
  from C2_applied_remote_description_is_kept [OF pc c p, of answerA "[Some answerA, Some answerB]"]
  show ?thesis
    by (simp add: pc c p)
qed

text \<open>
  C2 as stated fails. In Alice's call two answer notifications arrive before the browser
  has settled the first \<^verbatim>\<open>setRemoteDescription\<close>: the guard still reads no current
  description, so a second call is issued and is pending next to the first. And when
  the browser rejects the first call and a second notification follows, the second call
  goes through and sets the description.
\<close>

theorem C2_counterexample:
  "issued (run [EvAnswer (Some answerA), EvAnswer (Some answerB)]) aliceInCall =
     [PcSetRemoteDescription answerA, PcSetRemoteDescription answerB]
   \<and> map_option pendingRemoteDescriptions
       (peerConnection (run [EvAnswer (Some answerA), EvAnswer (Some answerB)] aliceInCall))
       = Some [answerA, answerB]
   \<and> map_option pendingRemoteDescriptions
       (peerConnection (run [EvAnswer (Some answerA)] aliceInCall)) = Some [answerA]
   \<and> map_option currentRemoteDescription
       (peerConnection
          (run [EvAnswer (Some answerA), EvRemoteDescriptionSettled (Some InvalidStateError),
                EvAnswer (Some answerB), EvRemoteDescriptionSettled None] aliceInCall))
       = Some (Some answerB)"
  by (simp add: issued_def fixture_defs call_defs showNat_1000)

section \<open>What the cleanup leaves alone\<close>

lemma stopTrack_eq:
  "stopTrack x s = s\<lparr>tracks := endTracks [x] (tracks s), trace := trace s @ [TrackStop x]\<rparr>"
  by (simp add: stopTrack_def logE_def endTracks_def)

lemma endTracks_Cons: "endTracks (x # xs) ts = endTracks xs (endTracks [x] ts)"
  by (simp add: endTracks_def)

lemma fold_stopTrack_eq:
  "fold stopTrack xs s =
     s\<lparr>tracks := endTracks xs (tracks s), trace := trace s @ map TrackStop xs\<rparr>"
proof (induction xs arbitrary: s)
  case Nil
  show ?case by (simp add: endTracks_def)
next
  case (Cons x xs)
  have "fold stopTrack (x # xs) s = fold stopTrack xs (stopTrack x s)" by simp
  also have "\<dots> = (stopTrack x s)\<lparr>tracks := endTracks xs (tracks (stopTrack x s)),
       trace := trace (stopTrack x s) @ map TrackStop xs\<rparr>" by (rule Cons.IH)
  also have "\<dots> = s\<lparr>tracks := endTracks (x # xs) (tracks s),
       trace := trace s @ map TrackStop (x # xs)\<rparr>"
    by (simp add: stopTrack_eq endTracks_Cons[of x xs])
  finally show ?case .
qed

lemma stopLocalTracks_eq:
  "stopLocalTracks s =
     s\<lparr>tracks := (case localStream s of None \<Rightarrow> tracks s
                  | Some sid \<Rightarrow> endTracks (getTracks sid s) (tracks s)),
       trace := trace s @ (case localStream s of None \<Rightarrow> []
                           | Some sid \<Rightarrow> map TrackStop (getTracks sid s))\<rparr>"
  by (cases "localStream s") (simp_all add: stopLocalTracks_def fold_stopTrack_eq)

lemma closePeerConnection_eq:
  "closePeerConnection s =
     s\<lparr>peerConnection := map_option (\<lambda>pc. pc\<lparr>connectionState := StClosed\<rparr>) (peerConnection s),
       trace := trace s @ (case peerConnection s of None \<Rightarrow> [] | Some _ \<Rightarrow> [PcClose])\<rparr>"
  by (cases "peerConnection s") (simp_all add: closePeerConnection_def logE_def)

lemma stopLocalTracks_frame [simp]:
  "isInCall (stopLocalTracks s) = isInCall s"
  "incomingCall (stopLocalTracks s) = incomingCall s"
  "mounted (stopLocalTracks s) = mounted s"
  "connectionStatus (stopLocalTracks s) = connectionStatus s"
  "currentUser (stopLocalTracks s) = currentUser s"
  "partner (stopLocalTracks s) = partner s"
  "incomingCallProp (stopLocalTracks s) = incomingCallProp s"
  "theCallId (stopLocalTracks s) = theCallId s"
  "db (stopLocalTracks s) = db s"
  by (simp_all add: stopLocalTracks_eq)

lemma closePeerConnection_frame [simp]:
  "isInCall (closePeerConnection s) = isInCall s"
  "incomingCall (closePeerConnection s) = incomingCall s"
  "mounted (closePeerConnection s) = mounted s"
  "connectionStatus (closePeerConnection s) = connectionStatus s"
  "currentUser (closePeerConnection s) = currentUser s"
  "partner (closePeerConnection s) = partner s"
  "incomingCallProp (closePeerConnection s) = incomingCallProp s"
  "theCallId (closePeerConnection s) = theCallId s"
  "db (closePeerConnection s) = db s"
  by (simp_all add: closePeerConnection_eq)

lemma markEnded_frame [simp]:
  "isInCall (markEnded s) = isInCall s"
  "incomingCall (markEnded s) = incomingCall s"
  "mounted (markEnded s) = mounted s"
  "connectionStatus (markEnded s) = connectionStatus s"
  "currentUser (markEnded s) = currentUser s"
  "partner (markEnded s) = partner s"
  "incomingCallProp (markEnded s) = incomingCallProp s"
  "theCallId (markEnded s) = theCallId s"
  "db (markEnded s) = (db s)\<lparr>statusAt := (statusAt (db s))(theCallId s \<mapsto> ''ended'')\<rparr>"
  by (simp_all add: markEnded_def dbSetStatus_def logE_def)

lemma offStatus_frame [simp]:
  "isInCall (offStatus s) = isInCall s"
  "incomingCall (offStatus s) = incomingCall s"
  "mounted (offStatus s) = mounted s"
  "connectionStatus (offStatus s) = connectionStatus s"
  "currentUser (offStatus s) = currentUser s"
  "partner (offStatus s) = partner s"
  "incomingCallProp (offStatus s) = incomingCallProp s"
  "theCallId (offStatus s) = theCallId s"
  "db (offStatus s) = db s"
  by (simp_all add: offStatus_def dbOff_def logE_def)

lemma cleanSignaling_frame [simp]:
  "isInCall (cleanSignaling s) = isInCall s"
  "incomingCall (cleanSignaling s) = incomingCall s"
  "mounted (cleanSignaling s) = mounted s"
  "connectionStatus (cleanSignaling s) = connectionStatus s"
  "currentUser (cleanSignaling s) = currentUser s"
  "partner (cleanSignaling s) = partner s"
  "incomingCallProp (cleanSignaling s) = incomingCallProp s"
  "theCallId (cleanSignaling s) = theCallId s"
  by (simp_all add: cleanSignaling_def dbOff_def dbRemoveIncomingCall_def logE_def
        split: option.splits)

lemma offCandidates_frame [simp]:
  "isInCall (offCandidates s) = isInCall s"
  "incomingCall (offCandidates s) = incomingCall s"
  "mounted (offCandidates s) = mounted s"
  "connectionStatus (offCandidates s) = connectionStatus s"
  "currentUser (offCandidates s) = currentUser s"
  "partner (offCandidates s) = partner s"
  "incomingCallProp (offCandidates s) = incomingCallProp s"
  "theCallId (offCandidates s) = theCallId s"
  "db (offCandidates s) = db s"
  by (simp_all add: offCandidates_def dbOff_def logE_def split: option.splits)

lemma cleanup_frame [simp]:
  "isInCall (cleanup s) = isInCall s"
  "incomingCall (cleanup s) = incomingCall s"
  "mounted (cleanup s) = mounted s"
  "connectionStatus (cleanup s) = connectionStatus s"
  "currentUser (cleanup s) = currentUser s"
  "partner (cleanup s) = partner s"
  "incomingCallProp (cleanup s) = incomingCallProp s"
  "theCallId (cleanup s) = theCallId s"
  by (simp_all add: cleanup_def)

text \<open>The store after the cleanup: one status written, one inbox slot emptied.\<close>

lemma cleanSignaling_db:
  "db (cleanSignaling s) =
     (db s)\<lparr>incomingCallAt :=
        (case incomingCallProp s of
           None \<Rightarrow> (case partner s of None \<Rightarrow> incomingCallAt (db s)
                     | Some p \<Rightarrow> (incomingCallAt (db s))(uid p := None))
         | Some ic \<Rightarrow> (incomingCallAt (db s))(uid (currentUser s) := None))\<rparr>"
  by (simp add: cleanSignaling_def isInitiator_def dbOff_def dbRemoveIncomingCall_def logE_def
       split: option.splits)

lemma cleanup_db:
  "db (cleanup s) =
     (db s)\<lparr>statusAt := (statusAt (db s))(theCallId s \<mapsto> ''ended''),
            incomingCallAt :=
              (case incomingCallProp s of
                 None \<Rightarrow> (case partner s of None \<Rightarrow> incomingCallAt (db s)
                           | Some p \<Rightarrow> (incomingCallAt (db s))(uid p := None))
               | Some ic \<Rightarrow> (incomingCallAt (db s))(uid (currentUser s) := None))\<rparr>"
  by (simp add: cleanup_def cleanSignaling_db split: option.splits)

text \<open>The watches after the cleanup: those on the status, the answer and the candidates are off.\<close>

lemma partnerId_frame [simp]:
  "partnerId (stopLocalTracks s) = partnerId s"
  "partnerId (closePeerConnection s) = partnerId s"
  "partnerId (markEnded s) = partnerId s"
  "partnerId (offStatus s) = partnerId s"
  "partnerId (cleanSignaling s) = partnerId s"
  "partnerId (s\<lparr>isInCall := a, incomingCall := b\<rparr>) = partnerId s"
  by (simp_all add: partnerId_def isInitiator_def)

lemma cleanup_step_listeners:
  "listeners (stopLocalTracks s) = listeners s"
  "listeners (closePeerConnection s) = listeners s"
  "listeners (markEnded s) = listeners s"
  "listeners (offStatus s) = filter (\<lambda>k. k \<noteq> StatusKey (theCallId s)) (listeners s)"
  "listeners (cleanSignaling s) =
     (if incomingCallProp s = None \<and> partner s \<noteq> None
      then filter (\<lambda>k. k \<noteq> AnswerKey (theCallId s)) (listeners s)
      else listeners s)"
  "listeners (offCandidates s) =
     (case partnerId s of None \<Rightarrow> listeners s
      | Some p \<Rightarrow>
          if p = [] then listeners s
          else filter (\<lambda>k. k \<noteq> CandidatesKey (theCallId s) p) (listeners s))"
  by (simp_all add: stopLocalTracks_eq closePeerConnection_eq markEnded_def offStatus_def
        cleanSignaling_def offCandidates_def isInitiator_def truthy_def dbSetStatus_def dbOff_def
        dbRemoveIncomingCall_def logE_def split: option.splits)

lemma cleanup_listeners:
  "StatusKey (theCallId s) \<notin> set (listeners (cleanup s))"
  "incomingCallProp s = None \<Longrightarrow> partner s \<noteq> None \<Longrightarrow>
     AnswerKey (theCallId s) \<notin> set (listeners (cleanup s))"
  "partnerId s = Some p \<Longrightarrow> p \<noteq> [] \<Longrightarrow>
     CandidatesKey (theCallId s) p \<notin> set (listeners (cleanup s))"
  "set (listeners (cleanup s)) \<subseteq> set (listeners s)"
  by (auto simp add: cleanup_def cleanup_step_listeners split: option.splits if_splits)

section \<open>The two calls of the worked examples\<close>

lemma aliceInCall_facts:
  "mounted aliceInCall" "incomingCallProp aliceInCall = None" "partner aliceInCall = Some bob"
  "theCallId aliceInCall = ''alice_1000''" "uid bob = ''bob''"
  "incomingCallAt (db aliceInCall) ''bob'' = Some invitation"
  "statusAt (db aliceInCall) ''alice_1000'' = Some ''active''"
  "partnerId aliceInCall = Some ''bob''"
  "listeners aliceInCall =
     [StatusKey ''alice_1000'', AnswerKey ''alice_1000'', CandidatesKey ''alice_1000'' ''bob'']"
  by (simp_all add: fixture_defs call_defs showNat_1000)

lemma bobInCall_facts:
  "mounted bobInCall" "incomingCallProp bobInCall = Some invitation"
  "theCallId bobInCall = ''alice_1000''" "uid (currentUser bobInCall) = ''bob''"
  "answerAt (db bobInCall) ''alice_1000'' = Some \<lparr>sigType = Answer, sdp = ''a''\<rparr>"
  "candidatesAt (db bobInCall) (''alice_1000'', ''bob'') = [cand1]"
  "incomingCallAt (db bobInCall) ''bob'' = Some invitation"
  by (simp_all add: fixture_defs call_defs)

section \<open>The end of a call\<close>

text \<open>
  C3, as the code has it. When a mounted call ends, the cleanup writes the status
  \<^verbatim>\<open>'ended'\<close> for the call and empties the inbox slot that carried the invitation: the
  partner's slot on the initiator's side, the own slot on the responder's side. The
  answer entry and the candidate entries of the call stay in the store as they were.
  What the cleanup does about them is detach the watches: after it the watch on the
  status, the initiator's watch on the answer and the watch on the partner's
  candidates are off, and no watch has been added.
\<close>

theorem C3_call_end_removes_invitation_only:
  assumes "mounted s"
  shows "statusAt (db (endCall s)) (theCallId s) = Some ''ended''
       \<and> answerAt (db (endCall s)) = answerAt (db s)
       \<and> candidatesAt (db (endCall s)) = candidatesAt (db s)
       \<and> (incomingCallProp s = None \<longrightarrow>
            (\<forall>p. partner s = Some p \<longrightarrow> incomingCallAt (db (endCall s)) (uid p) = None))
       \<and> (incomingCallProp s \<noteq> None \<longrightarrow>
            incomingCallAt (db (endCall s)) (uid (currentUser s)) = None)
       \<and> StatusKey (theCallId s) \<notin> set (listeners (endCall s))
       \<and> (incomingCallProp s = None \<longrightarrow> partner s \<noteq> None \<longrightarrow>
            AnswerKey (theCallId s) \<notin> set (listeners (endCall s)))
       \<and> (\<forall>p. partnerId s = Some p \<longrightarrow> p \<noteq> [] \<longrightarrow>
            CandidatesKey (theCallId s) p \<notin> set (listeners (endCall s)))
       \<and> set (listeners (endCall s)) \<subseteq> set (listeners s)"
proof -
  let ?s' = "s\<lparr>isInCall := False, incomingCall := None\<rparr>"
  have e: "endCall s = (cleanup ?s')\<lparr>mounted := False\<rparr>"
    using assms by (simp add: endCall_def render_def)
  have d: "statusAt (db (endCall s)) (theCallId s) = Some ''ended''
       \<and> answerAt (db (endCall s)) = answerAt (db s)
       \<and> candidatesAt (db (endCall s)) = candidatesAt (db s)
       \<and> (incomingCallProp s = None \<longrightarrow>
            (\<forall>p. partner s = Some p \<longrightarrow> incomingCallAt (db (endCall s)) (uid p) = None))
       \<and> (incomingCallProp s \<noteq> None \<longrightarrow>
            incomingCallAt (db (endCall s)) (uid (currentUser s)) = None)"
    using assms by (auto simp add: endCall_def render_def cleanup_db)
  have l1: "StatusKey (theCallId s) \<notin> set (listeners (endCall s))"
    using cleanup_listeners(1) [of ?s'] by (simp add: e)
  have l2: "incomingCallProp s = None \<longrightarrow> partner s \<noteq> None \<longrightarrow>
            AnswerKey (theCallId s) \<notin> set (listeners (endCall s))"
    using cleanup_listeners(2) [of ?s'] by (simp add: e)
  have l3: "\<forall>p. partnerId s = Some p \<longrightarrow> p \<noteq> [] \<longrightarrow>
            CandidatesKey (theCallId s) p \<notin> set (listeners (endCall s))"
    using cleanup_listeners(3) [of ?s'] by (simp add: e)
  have l4: "set (listeners (endCall s)) \<subseteq> set (listeners s)"
    using cleanup_listeners(4) [of ?s'] by (simp add: e)
  from d l1 l2 l3 l4 show ?thesis by (intro conjI) (elim conjE, assumption)+
qed

text \<open>
  Both sides of the example call: each empties Bob's inbox when it ends, and Alice's
  three watches are off afterwards.
\<close>

theorem C3_witness:
  "mounted bobInCall \<and> incomingCallProp bobInCall \<noteq> None
   \<and> statusAt (db (endCall bobInCall)) ''alice_1000'' = Some ''ended''
   \<and> answerAt (db (endCall bobInCall)) = answerAt (db bobInCall)
   \<and> candidatesAt (db (endCall bobInCall)) = candidatesAt (db bobInCall)
   \<and> incomingCallAt (db bobInCall) ''bob'' = Some invitation
   \<and> incomingCallAt (db (endCall bobInCall)) ''bob'' = None
   \<and> mounted aliceInCall \<and> incomingCallProp aliceInCall = None
   \<and> partner aliceInCall = Some bob
   \<and> incomingCallAt (db aliceInCall) ''bob'' = Some invitation
   \<and> incomingCallAt (db (endCall aliceInCall)) ''bob'' = None
   \<and> listeners aliceInCall =
       [StatusKey ''alice_1000'', AnswerKey ''alice_1000'', CandidatesKey ''alice_1000'' ''bob'']
   \<and> StatusKey ''alice_1000'' \<notin> set (listeners (endCall aliceInCall))
   \<and> AnswerKey ''alice_1000'' \<notin> set (listeners (endCall aliceInCall))
   \<and> CandidatesKey ''alice_1000'' ''bob'' \<notin> set (listeners (endCall aliceInCall))"
  using C3_call_end_removes_invitation_only [of bobInCall]
        C3_call_end_removes_invitation_only [of aliceInCall]
  by (simp add: bobInCall_facts aliceInCall_facts)

text \<open>
  C3 as stated fails. Bob, the responder, has written his answer and pushed one
  candidate; he presses the end button. Both entries are still in the store.
\<close>

theorem C3_counterexample:
  "answerAt (db (step EvEndCallButton bobInCall)) ''alice_1000'' =
     Some \<lparr>sigType = Answer, sdp = ''a''\<rparr>
   \<and> candidatesAt (db (step EvEndCallButton bobInCall)) (''alice_1000'', ''bob'') = [cand1]"
  by (simp add: bobInCall_facts endCall_def render_def cleanup_db)

lemma app_state_unchanged:
  "\<not> isInCall s \<Longrightarrow> incomingCall s = None \<Longrightarrow> s\<lparr>isInCall := False, incomingCall := None\<rparr> = s"
  by (cases s) simp

lemma endCall_twice: "endCall (endCall s) = endCall s"
  by (simp add: endCall_def render_def app_state_unchanged)

text \<open>
  C4. \<^verbatim>\<open>endCall\<close> clears the two \<^verbatim>\<open>App\<close> flags; the modal is unmounted and its cleanup
  runs at the first call only. Any number of further calls leaves the whole state (the
  \<^verbatim>\<open>App\<close> state, the store, the track heap and the sequence of outside calls, removals
  included) as the first call left it. The same holds when the first end came from the
  remote side, through the status watch.
\<close>

theorem C4_endCall_idempotent:
  "(endCall ^^ Suc n) s = endCall s
   \<and> (endCall ^^ Suc n) (handleStatusChange (Some ''ended'') s) =
       handleStatusChange (Some ''ended'') s"
proof -
  have many: "(endCall ^^ Suc k) s' = endCall s'" for k s'
    by (induction k) (simp_all add: endCall_twice)
  have "(endCall ^^ Suc n) (endCall s) = endCall s"
    by (simp only: many endCall_twice)
  then show ?thesis
    by (simp only: many handleStatusChange_def if_True simp_thms)
qed

section \<open>Where the status shown to the user can change\<close>

lemma fold_frame:
  assumes "\<And>x s. P (f x s) = P s"
  shows "P (fold f xs s) = P s"
  using assms by (induction xs arbitrary: s) simp_all

lemma prim_status [simp]:
  "connectionStatus (logE ef s) = connectionStatus s"
  "connectionStatus (dbSetStatus c v s) = connectionStatus s"
  "connectionStatus (dbSetAnswer c a s) = connectionStatus s"
  "connectionStatus (dbSetIncomingCall u ic s) = connectionStatus s"
  "connectionStatus (dbRemoveIncomingCall u s) = connectionStatus s"
  "connectionStatus (dbPushCandidate c u cd s) = connectionStatus s"
  "connectionStatus (dbOnValue k s) = connectionStatus s"
  "connectionStatus (dbOff k s) = connectionStatus s"
  "connectionStatus (updPc f s) = connectionStatus s"
  "connectionStatus (pcAddTrack i s) = connectionStatus s"
  "connectionStatus (flipEnabled i s) = connectionStatus s"
  "connectionStatus (addIceCandidate cd s) = connectionStatus s"
  "connectionStatus (iceCandidateSettled cv s) = connectionStatus s"
  "connectionStatus (allocStream ts s) = connectionStatus s"
  "connectionStatus (removeTrackFrom sid t s) = connectionStatus s"
  "connectionStatus (addTrackTo sid t s) = connectionStatus s"
  "connectionStatus (showLocalStream s) = connectionStatus s"
  "connectionStatus (requestCamera nd s) = connectionStatus s"
  "connectionStatus (consoleError m s) = connectionStatus s"
  by (simp_all add: logE_def dbSetStatus_def dbSetAnswer_def dbSetIncomingCall_def
        dbRemoveIncomingCall_def dbPushCandidate_def dbOnValue_def dbOff_def updPc_def
        pcAddTrack_def flipEnabled_def addIceCandidate_def iceCandidateSettled_def allocStream_def
        consoleError_def
        removeTrackFrom_def addTrackTo_def showLocalStream_def requestCamera_def
        split: option.splits)

lemma fold_status [simp]:
  "connectionStatus (fold pcAddTrack xs s) = connectionStatus s"
  "connectionStatus (fold flipEnabled xs s) = connectionStatus s"
  "connectionStatus (fold addIceCandidate cs s) = connectionStatus s"
  "connectionStatus (fold iceCandidateSettled cvs s) = connectionStatus s"
  by (rule fold_frame, simp)+

lemma start_phase_status [simp]:
  "connectionStatus (requestLocalMedia s) = connectionStatus s"
  "connectionStatus (acquireLocalStream ts s) = connectionStatus s"
  "connectionStatus (addLocalTracks s) = connectionStatus s"
  "connectionStatus (createPeerConnection s) = connectionStatus s"
  "connectionStatus (listenRemoteCandidates s) = connectionStatus s"
  "connectionStatus (catchBlock s) = ''Failed to access media devices''"
  by (simp_all add: requestLocalMedia_def acquireLocalStream_def addLocalTracks_def
        createPeerConnection_def listenRemoteCandidates_def catchBlock_def
        split: option.splits)

lemma initiatorBranch_status [simp]:
  "connectionStatus (snd (initiatorBranch e p s)) = connectionStatus s"
  by (simp add: initiatorBranch_def Let_def split: option.splits sum.splits)

lemma responderBranch_status [simp]:
  "connectionStatus (snd (responderBranch e ic s)) = connectionStatus s"
  by (simp add: responderBranch_def Let_def split: option.splits sum.splits)

lemma signaling_status [simp]:
  "connectionStatus (snd (signaling e s)) = connectionStatus s"
  by (simp add: signaling_def split: option.splits)

lemma finishStart_status:
  "connectionStatus (snd r) \<noteq> ''Connected'' \<Longrightarrow> connectionStatus (finishStart r) \<noteq> ''Connected''"
  by (cases r) (simp add: finishStart_def split: option.splits)

lemma startCall_status:
  "connectionStatus s \<noteq> ''Connected'' \<Longrightarrow> connectionStatus (startCall e s) \<noteq> ''Connected''"
  by (cases "gumResult e") (simp_all add: startCall_def finishStart_status)

lemma endCall_status [simp]: "connectionStatus (endCall s) = connectionStatus s"
  by (simp add: endCall_def render_def)

lemma handler_status [simp]:
  "connectionStatus (handleStatusChange v s) = connectionStatus s"
  "connectionStatus (ontrack ss s) = connectionStatus s"
  "connectionStatus (onicecandidate c s) = connectionStatus s"
  "connectionStatus (onAnswerValue d s) = connectionStatus s"
  "connectionStatus (remoteDescriptionSettled verdict s) = connectionStatus s"
  "connectionStatus (onRemoteCandidatesValue cs s) = connectionStatus s"
  "connectionStatus (onDevicesEnumerated ds s) = connectionStatus s"
  "connectionStatus (toggleMute s) = connectionStatus s"
  "connectionStatus (toggleVideo s) = connectionStatus s"
  "connectionStatus (rejectCall s) = connectionStatus s"
  by (simp_all add: handleStatusChange_def ontrack_def onicecandidate_def onAnswerValue_def
        remoteDescriptionSettled_def onRemoteCandidatesValue_def onDevicesEnumerated_def
        toggleMute_def toggleVideo_def rejectCall_def split: option.splits list.splits)

lemma onconnectionstatechange_status:
  "st \<noteq> StConnected \<Longrightarrow> connectionStatus s \<noteq> ''Connected'' \<Longrightarrow>
   connectionStatus (onconnectionstatechange st s) \<noteq> ''Connected''"
  by (simp add: onconnectionstatechange_def Let_def split: option.splits)

lemma swapLocalTrack_status [simp]:
  "connectionStatus (swapLocalTrack sid ct nt s) = connectionStatus s"
  by (simp add: swapLocalTrack_def split: option.splits)

lemma replaceSenderTrack_status [simp]:
  "connectionStatus (replaceSenderTrack e sid ct nt s) = connectionStatus s"
  by (simp add: replaceSenderTrack_def split: option.splits)

lemma replaceVideoTrack_status [simp]:
  "connectionStatus (replaceVideoTrack e sid ct nd s) = connectionStatus s"
  by (simp add: replaceVideoTrack_def split: sum.splits)

lemma switchCamera_status [simp]:
  "connectionStatus (switchCamera e s) = connectionStatus s"
  by (simp add: switchCamera_def Let_def split: option.splits sum.splits)

lemma renderMount_status:
  "connectionStatus s \<noteq> ''Connected'' \<Longrightarrow> connectionStatus (renderMount now s) \<noteq> ''Connected''"
  by (simp add: renderMount_def mountCallModal_def Let_def split: option.splits)

lemma app_status:
  "connectionStatus s \<noteq> ''Connected'' \<Longrightarrow> connectionStatus (appStartCall v now s) \<noteq> ''Connected''"
  "connectionStatus s \<noteq> ''Connected'' \<Longrightarrow> connectionStatus (acceptCall now s) \<noteq> ''Connected''"
  by (simp_all add: appStartCall_def acceptCall_def renderMount_status split: option.splits)

lemma step_status:
  "connectionStatus s \<noteq> ''Connected'' \<Longrightarrow> ev \<noteq> EvConnectionState StConnected \<Longrightarrow>
   connectionStatus (step ev s) \<noteq> ''Connected''"
  by (cases ev)
     (simp_all add: startCall_status onconnectionstatechange_status app_status
        split: option.splits list.splits)

lemma run_status:
  "connectionStatus s \<noteq> ''Connected'' \<Longrightarrow> connectionStatus (run es s) = ''Connected'' \<Longrightarrow>
   EvConnectionState StConnected \<in> set es"
proof (induction es arbitrary: s)
  case Nil
  then show ?case by (simp add: run_def)
next
  case (Cons ev es)
  show ?case
  proof (cases "ev = EvConnectionState StConnected")
    case True
    then show ?thesis by simp
  next
    case False
    with Cons.prems(1) have "connectionStatus (step ev s) \<noteq> ''Connected''"
      by (rule step_status)
    moreover from Cons.prems(2) have "connectionStatus (run es (step ev s)) = ''Connected''"
      by (simp add: run_def)
    ultimately have "EvConnectionState StConnected \<in> set es" by (rule Cons.IH)
    then show ?thesis by simp
  qed
qed

text \<open>
  C5. The status shown to the user is \<^verbatim>\<open>'Connected'\<close> only through the
  connection-state callback reporting \<^verbatim>\<open>connected\<close>: from a state that is not
  \<^verbatim>\<open>'Connected'\<close>, whatever sequence of events runs (store watches, peer-connection
  callbacks, buttons, timers, the start of the call with any answers of the browser),
  if the status ends up \<^verbatim>\<open>'Connected'\<close> then that callback was among the events. In
  particular the description exchange alone (\<^verbatim>\<open>startCall\<close> to its end, then the answer
  received, and then applied and settled) leaves the status not \<^verbatim>\<open>'Connected'\<close>.
\<close>

theorem C5_connected_only_by_connection_state:
  assumes "connectionStatus s \<noteq> ''Connected''"
  shows "(connectionStatus (run es s) = ''Connected'' \<longrightarrow> EvConnectionState StConnected \<in> set es)
       \<and> connectionStatus (onAnswerValue d (startCall e s)) \<noteq> ''Connected''
       \<and> connectionStatus (remoteDescriptionSettled v (onAnswerValue d (startCall e s)))
           \<noteq> ''Connected''"
  using assms run_status [of s es] startCall_status [of s e] by simp

theorem C5_witness:
  "connectionStatus aliceMounted \<noteq> ''Connected''
   \<and> connectionStatus
       (run [EvStartCall okEnv, EvAnswer (Some answerA), EvRemoteDescriptionSettled None,
             EvConnectionState StConnected] aliceMounted) = ''Connected''
   \<and> EvConnectionState StConnected
       \<in> set [EvStartCall okEnv, EvAnswer (Some answerA), EvRemoteDescriptionSettled None,
              EvConnectionState StConnected]
   \<and> connectionStatus
       (remoteDescriptionSettled None (onAnswerValue (Some answerA) (startCall okEnv aliceMounted)))
       \<noteq> ''Connected''"
proof -
  have h: "connectionStatus aliceMounted \<noteq> ''Connected''"
    by (simp add: fixture_defs call_defs)
  have r: "connectionStatus
       (run [EvStartCall okEnv, EvAnswer (Some answerA), EvRemoteDescriptionSettled None,
             EvConnectionState StConnected] aliceMounted) = ''Connected''"
    by (simp add: fixture_defs call_defs showNat_1000)
  from C5_connected_only_by_connection_state [OF h] h r show ?thesis by simp
qed

section \<open>The calls issued by startCall\<close>

lemma pcAddTrack_trace: "trace (pcAddTrack i s) = trace s @ [PcAddTrack i]"
  by (simp add: pcAddTrack_def logE_def updPc_def split: option.splits)

lemma fold_pcAddTrack_trace: "trace (fold pcAddTrack xs s) = trace s @ map PcAddTrack xs"
  by (induction xs arbitrary: s) (simp_all add: pcAddTrack_trace)

lemma start_phase_props [simp]:
  "incomingCallProp (requestLocalMedia s) = incomingCallProp s"
  "theCallId (requestLocalMedia s) = theCallId s"
  "incomingCallProp (acquireLocalStream ts s) = incomingCallProp s"
  "theCallId (acquireLocalStream ts s) = theCallId s"
  by (simp_all add: requestLocalMedia_def acquireLocalStream_def allocStream_def logE_def)

lemma fold_pcAddTrack_props [simp]:
  "incomingCallProp (fold pcAddTrack xs s) = incomingCallProp s"
  "theCallId (fold pcAddTrack xs s) = theCallId s"
  by (rule fold_frame, simp add: pcAddTrack_def logE_def updPc_def split: option.splits)+

lemma createPeerConnection_props [simp]:
  "incomingCallProp (createPeerConnection s) = incomingCallProp s"
  "theCallId (createPeerConnection s) = theCallId s"
  by (simp_all add: createPeerConnection_def addLocalTracks_def logE_def split: option.splits)

lemma start_phase_trace:
  "trace (requestLocalMedia s) =
     trace s @ [GetUserMedia \<lparr>video = (if isVideoProp s then FacingUser else NoVideo), audio = True\<rparr>]"
  "trace (acquireLocalStream ts s) = trace s"
  "trace (catchBlock s) = trace s @ [ConsoleError ''Error starting call:'', SetTimeout 3000]"
  by (simp_all add: requestLocalMedia_def acquireLocalStream_def allocStream_def catchBlock_def logE_def)

lemma createPeerConnection_trace:
  "trace (createPeerConnection s) =
     trace s @ NewPeerConnection #
       map PcAddTrack (case localStream s of None \<Rightarrow> [] | Some sid \<Rightarrow> getTracks sid s)"
  by (simp add: createPeerConnection_def addLocalTracks_def fold_pcAddTrack_trace logE_def
        getTracks_def split: option.splits)

lemma responderBranch_trace:
  "trace (snd (responderBranch e ic s)) =
     trace s @ PcSetRemoteDescription (offer ic) #
       (case setRemoteDescriptionErr e of Some _ \<Rightarrow> []
        | None \<Rightarrow> PcCreateAnswer #
            (case createAnswerResult e of Inl _ \<Rightarrow> []
             | Inr a \<Rightarrow> PcSetLocalDescription \<lparr>sigType = Answer, sdp = a\<rparr> #
                 (case setLocalDescriptionErr e of Some _ \<Rightarrow> []
                  | None \<Rightarrow> [DbWrite (AnswerKey (theCallId s))])))"
  by (simp add: responderBranch_def Let_def logE_def updPc_def dbSetAnswer_def
        split: option.splits sum.splits)

lemma finishStart_trace:
  "\<exists>F. trace (finishStart r) = trace (snd r) @ F \<and> (\<forall>k. DbWrite k \<notin> set F)
       \<and> PcCreateAnswer \<notin> set F"
  by (cases r)
     (auto simp add: finishStart_def start_phase_trace listenRemoteCandidates_def dbOnValue_def logE_def
        split: option.splits)

text \<open>The peer connection and the store through the phases of \<^verbatim>\<open>startCall\<close>.\<close>

lemma start_phase_db [simp]:
  "db (requestLocalMedia s) = db s"
  "db (acquireLocalStream ts s) = db s"
  "db (catchBlock s) = db s"
  "db (listenRemoteCandidates s) = db s"
  "peerConnection (catchBlock s) = peerConnection s"
  "peerConnection (listenRemoteCandidates s) = peerConnection s"
  by (simp_all add: requestLocalMedia_def acquireLocalStream_def allocStream_def catchBlock_def
        listenRemoteCandidates_def dbOnValue_def logE_def split: option.splits)

lemma fold_pcAddTrack_db [simp]: "db (fold pcAddTrack xs s) = db s"
  by (rule fold_frame) (simp add: pcAddTrack_def logE_def updPc_def split: option.splits)

lemma fold_pcAddTrack_pc:
  "peerConnection s = Some pc \<Longrightarrow>
     \<exists>sn. peerConnection (fold pcAddTrack xs s) = Some (pc\<lparr>senders := sn\<rparr>)"
proof (induction xs arbitrary: s pc)
  case Nil
  have "pc = pc\<lparr>senders := senders pc\<rparr>" by simp
  with Nil show ?case by (metis fold_simps(1))
next
  case (Cons x xs)
  have "peerConnection (pcAddTrack x s) = Some (pc\<lparr>senders := senders pc @ [Some x]\<rparr>)"
    using Cons.prems by (simp add: pcAddTrack_def logE_def updPc_def)
  from Cons.IH [OF this] show ?case by auto
qed

lemma createPeerConnection_db [simp]: "db (createPeerConnection s) = db s"
  by (simp add: createPeerConnection_def addLocalTracks_def logE_def split: option.splits)

lemma createPeerConnection_pc:
  "\<exists>sn. peerConnection (createPeerConnection s) = Some (newPeerConnection\<lparr>senders := sn\<rparr>)"
proof (cases "localStream s")
  case None
  then show ?thesis
    by (intro exI [of _ "[]"])
       (simp add: createPeerConnection_def addLocalTracks_def logE_def newPeerConnection_def)
next
  case (Some sid)
  have "peerConnection (logE NewPeerConnection (s\<lparr>peerConnection := Some newPeerConnection\<rparr>))
          = Some newPeerConnection"
    by (simp add: logE_def)
  from fold_pcAddTrack_pc [OF this] Some show ?thesis
    by (simp add: createPeerConnection_def addLocalTracks_def logE_def)
qed

lemma responderBranch_pc:
  "peerConnection s = Some pc \<Longrightarrow>
   peerConnection (snd (responderBranch e ic s)) =
     Some (case setRemoteDescriptionErr e of Some _ \<Rightarrow> pc
           | None \<Rightarrow>
               (case createAnswerResult e of
                  Inl _ \<Rightarrow> pc\<lparr>currentRemoteDescription := Some (offer ic)\<rparr>
                | Inr a \<Rightarrow>
                    (case setLocalDescriptionErr e of
                       Some _ \<Rightarrow> pc\<lparr>currentRemoteDescription := Some (offer ic)\<rparr>
                     | None \<Rightarrow>
                         pc\<lparr>currentRemoteDescription := Some (offer ic),
                            localDescription := Some \<lparr>sigType = Answer, sdp = a\<rparr>\<rparr>)))"
  by (simp add: responderBranch_def Let_def logE_def updPc_def dbSetAnswer_def
        split: option.splits sum.splits)

lemma responderBranch_db:
  "db (snd (responderBranch e ic s)) =
     (case setRemoteDescriptionErr e of Some _ \<Rightarrow> db s
      | None \<Rightarrow>
          (case createAnswerResult e of Inl _ \<Rightarrow> db s
           | Inr a \<Rightarrow>
               (case setLocalDescriptionErr e of Some _ \<Rightarrow> db s
                | None \<Rightarrow>
                    (case dbSetErr e of Some _ \<Rightarrow> db s
                     | None \<Rightarrow>
                         (db s)\<lparr>answerAt :=
                                  (answerAt (db s))(theCallId s \<mapsto> \<lparr>sigType = Answer, sdp = a\<rparr>)\<rparr>))))"
  by (simp add: responderBranch_def Let_def logE_def updPc_def dbSetAnswer_def
        split: option.splits sum.splits)

lemma finishStart_state:
  "peerConnection (finishStart r) = peerConnection (snd r)"
  "db (finishStart r) = db (snd r)"
  by (cases r; simp add: finishStart_def split: option.splits)+

lemma signaling_responder:
  "incomingCallProp s = Some ic \<Longrightarrow> signaling e s = responderBranch e ic s"
  by (simp add: signaling_def isInitiator_def)

text \<open>
  C6. On the responder's side (\<^verbatim>\<open>incomingCall\<close> present), whatever the browser and the
  store answer:

  \<^item> if \<^verbatim>\<open>startCall\<close> issues the write of the answer at all, then
    \<^verbatim>\<open>setRemoteDescription(offer)\<close> had resolved, and the calls \<^verbatim>\<open>startCall\<close> issued
    contain, in this order and next to each other, \<^verbatim>\<open>setRemoteDescription\<close> of the
    invitation's offer, \<^verbatim>\<open>createAnswer\<close>, \<^verbatim>\<open>setLocalDescription\<close> of the created answer
    and the write of the answer, each of the first three having resolved; no write of
    the answer comes before or after;

  \<^item> the write of the answer is issued exactly when the media request,
    \<^verbatim>\<open>setRemoteDescription(offer)\<close>, \<^verbatim>\<open>createAnswer\<close> and \<^verbatim>\<open>setLocalDescription(answer)\<close>
    all resolve;

  \<^item> when it is issued, the peer connection has the invitation's offer as its current
    remote description and the created answer as its local description, and the store
    holds under the call's answer entry the very answer \<^verbatim>\<open>createAnswer\<close> produced (if
    the store accepts the write; otherwise the entry is as before);

  \<^item> when it is not issued, the answer entry is as before;

  \<^item> when \<^verbatim>\<open>setRemoteDescription(offer)\<close> is rejected, the peer connection has no remote
    description and \<^verbatim>\<open>createAnswer\<close> is never called.
\<close>

theorem C6_answer_written_after_offer_applied:
  assumes resp: "incomingCallProp s = Some ic"
  shows "trace (startCall e s) = trace s @ issued (startCall e) s
       \<and> (DbWrite (AnswerKey (theCallId s)) \<in> set (issued (startCall e) s) \<longrightarrow>
            setRemoteDescriptionErr e = None
          \<and> (\<exists>pre post a.
                issued (startCall e) s =
                  pre @ [PcSetRemoteDescription (offer ic), PcCreateAnswer,
                         PcSetLocalDescription \<lparr>sigType = Answer, sdp = a\<rparr>,
                         DbWrite (AnswerKey (theCallId s))] @ post
              \<and> createAnswerResult e = Inr a \<and> setLocalDescriptionErr e = None
              \<and> DbWrite (AnswerKey (theCallId s)) \<notin> set pre
              \<and> DbWrite (AnswerKey (theCallId s)) \<notin> set post))
       \<and> ((DbWrite (AnswerKey (theCallId s)) \<in> set (issued (startCall e) s)) =
            (\<exists>ts a. gumResult e = Inr ts \<and> setRemoteDescriptionErr e = None
                   \<and> createAnswerResult e = Inr a \<and> setLocalDescriptionErr e = None))
       \<and> (\<forall>a. DbWrite (AnswerKey (theCallId s)) \<in> set (issued (startCall e) s) \<longrightarrow>
               createAnswerResult e = Inr a \<longrightarrow>
               map_option currentRemoteDescription (peerConnection (startCall e s)) =
                 Some (Some (offer ic))
             \<and> map_option localDescription (peerConnection (startCall e s)) =
                 Some (Some \<lparr>sigType = Answer, sdp = a\<rparr>)
             \<and> answerAt (db (startCall e s)) =
                 (if dbSetErr e = None
                  then (answerAt (db s))(theCallId s \<mapsto> \<lparr>sigType = Answer, sdp = a\<rparr>)
                  else answerAt (db s)))
       \<and> (DbWrite (AnswerKey (theCallId s)) \<notin> set (issued (startCall e) s) \<longrightarrow>
            answerAt (db (startCall e s)) = answerAt (db s))
       \<and> (\<forall>ts. gumResult e = Inr ts \<longrightarrow> setRemoteDescriptionErr e \<noteq> None \<longrightarrow>
               map_option currentRemoteDescription (peerConnection (startCall e s)) = Some None
             \<and> PcCreateAnswer \<notin> set (issued (startCall e) s))"
proof (cases "gumResult e")
  case (Inl err)
  then have "trace (startCall e s) = trace s @
      [GetUserMedia \<lparr>video = (if isVideoProp s then FacingUser else NoVideo), audio = True\<rparr>,
       ConsoleError ''Error starting call:'', SetTimeout 3000]"
    by (simp add: startCall_def start_phase_trace)
  moreover have "db (startCall e s) = db s"
    using Inl by (simp add: startCall_def)
  ultimately show ?thesis using Inl by (simp add: issued_def)
next
  case (Inr ts)
  let ?W = "DbWrite (AnswerKey (theCallId s))"
  let ?s4 = "createPeerConnection (acquireLocalStream ts (requestLocalMedia s))"
  let ?G = "GetUserMedia \<lparr>video = (if isVideoProp s then FacingUser else NoVideo), audio = True\<rparr>"
  let ?R = "PcSetRemoteDescription (offer ic) #
       (case setRemoteDescriptionErr e of Some _ \<Rightarrow> []
        | None \<Rightarrow> PcCreateAnswer #
            (case createAnswerResult e of Inl _ \<Rightarrow> []
             | Inr a \<Rightarrow> PcSetLocalDescription \<lparr>sigType = Answer, sdp = a\<rparr> #
                 (case setLocalDescriptionErr e of Some _ \<Rightarrow> []
                  | None \<Rightarrow> [?W])))"
  obtain ids where t4: "trace ?s4 = trace s @ ?G # NewPeerConnection # map PcAddTrack ids"
    by (simp add: createPeerConnection_trace start_phase_trace)
  have sig: "signaling e ?s4 = responderBranch e ic ?s4"
    by (rule signaling_responder) (simp add: resp)
  obtain F where tF: "trace (finishStart (signaling e ?s4)) = trace (snd (signaling e ?s4)) @ F"
    and nF: "\<forall>k. DbWrite k \<notin> set F" and cF: "PcCreateAnswer \<notin> set F"
    using finishStart_trace by blast
  have st: "startCall e s = finishStart (responderBranch e ic ?s4)"
    by (simp add: startCall_def Inr sig)
  have "trace (startCall e s) = trace (finishStart (signaling e ?s4))"
    by (simp add: startCall_def Inr)
  also have "\<dots> = trace (snd (signaling e ?s4)) @ F" by (rule tF)
  also have "\<dots> = (trace ?s4 @ ?R) @ F"
    by (simp only: sig responderBranch_trace createPeerConnection_props start_phase_props)
  finally have tr: "trace (startCall e s) = trace s @ (?G # NewPeerConnection # map PcAddTrack ids) @ ?R @ F"
    by (simp only: t4 append_assoc append_Cons)
  then have iss: "issued (startCall e) s = (?G # NewPeerConnection # map PcAddTrack ids) @ ?R @ F"
    by (simp add: issued_def)
  have npre: "?W \<notin> set (?G # NewPeerConnection # map PcAddTrack ids)" by auto
  have cpre: "PcCreateAnswer \<notin> set (?G # NewPeerConnection # map PcAddTrack ids)" by auto
  have wR: "(?W \<in> set (issued (startCall e) s)) = (?W \<in> set ?R)"
    using iss npre nF by auto
  have Rchar: "(?W \<in> set ?R) =
      (setRemoteDescriptionErr e = None \<and> (\<exists>a. createAnswerResult e = Inr a)
       \<and> setLocalDescriptionErr e = None)"
    by (cases "setRemoteDescriptionErr e"; cases "createAnswerResult e";
        cases "setLocalDescriptionErr e"; simp)
  obtain sn where pc4: "peerConnection ?s4 = Some (newPeerConnection\<lparr>senders := sn\<rparr>)"
    using createPeerConnection_pc by blast
  note pcF = responderBranch_pc [OF pc4, of e ic]
  have dbF: "db (startCall e s) = db (snd (responderBranch e ic ?s4))"
    by (simp add: st finishStart_state)
  have pcS: "peerConnection (startCall e s) = peerConnection (snd (responderBranch e ic ?s4))"
    by (simp add: st finishStart_state)
  have imp: "setRemoteDescriptionErr e = None
          \<and> (\<exists>pre post a.
                issued (startCall e) s =
                  pre @ [PcSetRemoteDescription (offer ic), PcCreateAnswer,
                         PcSetLocalDescription \<lparr>sigType = Answer, sdp = a\<rparr>, ?W] @ post
              \<and> createAnswerResult e = Inr a \<and> setLocalDescriptionErr e = None
              \<and> ?W \<notin> set pre \<and> ?W \<notin> set post)"
    if w: "?W \<in> set (issued (startCall e) s)"
  proof -
    from w wR Rchar obtain a where a1: "setRemoteDescriptionErr e = None"
      and a2: "createAnswerResult e = Inr a" and a3: "setLocalDescriptionErr e = None"
      by blast
    from a1 a2 a3 have R: "?R = [PcSetRemoteDescription (offer ic), PcCreateAnswer,
                         PcSetLocalDescription \<lparr>sigType = Answer, sdp = a\<rparr>, ?W]" by simp
    from iss R have "issued (startCall e) s =
        (?G # NewPeerConnection # map PcAddTrack ids) @
        [PcSetRemoteDescription (offer ic), PcCreateAnswer,
         PcSetLocalDescription \<lparr>sigType = Answer, sdp = a\<rparr>, ?W] @ F"
      by (simp only:)
    with npre nF a2 a3 have "\<exists>pre post a.
                issued (startCall e) s =
                  pre @ [PcSetRemoteDescription (offer ic), PcCreateAnswer,
                         PcSetLocalDescription \<lparr>sigType = Answer, sdp = a\<rparr>, ?W] @ post
              \<and> createAnswerResult e = Inr a \<and> setLocalDescriptionErr e = None
              \<and> ?W \<notin> set pre \<and> ?W \<notin> set post"
      by (intro exI conjI) (assumption | simp)+
    with a1 show ?thesis by (rule conjI)
  qed
  have c1: "trace (startCall e s) = trace s @ issued (startCall e) s"
    unfolding iss by (rule tr)
  have c2: "?W \<in> set (issued (startCall e) s) \<longrightarrow>
            setRemoteDescriptionErr e = None
          \<and> (\<exists>pre post a.
                issued (startCall e) s =
                  pre @ [PcSetRemoteDescription (offer ic), PcCreateAnswer,
                         PcSetLocalDescription \<lparr>sigType = Answer, sdp = a\<rparr>, ?W] @ post
              \<and> createAnswerResult e = Inr a \<and> setLocalDescriptionErr e = None
              \<and> ?W \<notin> set pre \<and> ?W \<notin> set post)"
    by (rule impI) (rule imp)
  have c3: "(?W \<in> set (issued (startCall e) s)) =
            (\<exists>ts a. gumResult e = Inr ts \<and> setRemoteDescriptionErr e = None
                   \<and> createAnswerResult e = Inr a \<and> setLocalDescriptionErr e = None)"
    unfolding wR Rchar using Inr by blast
  have c4: "\<forall>a. ?W \<in> set (issued (startCall e) s) \<longrightarrow>
               createAnswerResult e = Inr a \<longrightarrow>
               map_option currentRemoteDescription (peerConnection (startCall e s)) =
                 Some (Some (offer ic))
             \<and> map_option localDescription (peerConnection (startCall e s)) =
                 Some (Some \<lparr>sigType = Answer, sdp = a\<rparr>)
             \<and> answerAt (db (startCall e s)) =
                 (if dbSetErr e = None
                  then (answerAt (db s))(theCallId s \<mapsto> \<lparr>sigType = Answer, sdp = a\<rparr>)
                  else answerAt (db s))"
  proof (intro allI impI)
    fix a
    assume w: "?W \<in> set (issued (startCall e) s)" and a2: "createAnswerResult e = Inr a"
    from w wR Rchar have a1: "setRemoteDescriptionErr e = None"
      and a3: "setLocalDescriptionErr e = None" by blast+
    have p: "peerConnection (startCall e s) =
        Some (newPeerConnection\<lparr>senders := sn, currentRemoteDescription := Some (offer ic),
                localDescription := Some \<lparr>sigType = Answer, sdp = a\<rparr>\<rparr>)"
      by (simp add: pcS pcF a1 a2 a3)
    have d: "answerAt (db (startCall e s)) =
                 (if dbSetErr e = None
                  then (answerAt (db s))(theCallId s \<mapsto> \<lparr>sigType = Answer, sdp = a\<rparr>)
                  else answerAt (db s))"
      by (simp add: dbF responderBranch_db a1 a2 a3 split: option.splits)
    from p d show "map_option currentRemoteDescription (peerConnection (startCall e s)) =
                 Some (Some (offer ic))
             \<and> map_option localDescription (peerConnection (startCall e s)) =
                 Some (Some \<lparr>sigType = Answer, sdp = a\<rparr>)
             \<and> answerAt (db (startCall e s)) =
                 (if dbSetErr e = None
                  then (answerAt (db s))(theCallId s \<mapsto> \<lparr>sigType = Answer, sdp = a\<rparr>)
                  else answerAt (db s))"
      by simp
  qed
  have c5: "?W \<notin> set (issued (startCall e) s) \<longrightarrow>
            answerAt (db (startCall e s)) = answerAt (db s)"
  proof
    assume "?W \<notin> set (issued (startCall e) s)"
    with wR Rchar have "\<not> (setRemoteDescriptionErr e = None \<and> (\<exists>a. createAnswerResult e = Inr a)
       \<and> setLocalDescriptionErr e = None)" by blast
    then show "answerAt (db (startCall e s)) = answerAt (db s)"
      by (auto simp add: dbF responderBranch_db split: option.splits sum.splits)
  qed
  have c6: "\<forall>ts. gumResult e = Inr ts \<longrightarrow> setRemoteDescriptionErr e \<noteq> None \<longrightarrow>
               map_option currentRemoteDescription (peerConnection (startCall e s)) = Some None
             \<and> PcCreateAnswer \<notin> set (issued (startCall e) s)"
  proof (intro allI impI)
    fix ts'
    assume r: "setRemoteDescriptionErr e \<noteq> None"
    then obtain err where r': "setRemoteDescriptionErr e = Some err" by auto
    have p: "peerConnection (startCall e s) = Some (newPeerConnection\<lparr>senders := sn\<rparr>)"
      by (simp add: pcS pcF r')
    have R: "?R = [PcSetRemoteDescription (offer ic)]" by (simp add: r')
    have "PcCreateAnswer \<notin> set (issued (startCall e) s)"
      unfolding iss R using cpre cF by simp
    with p show "map_option currentRemoteDescription (peerConnection (startCall e s)) = Some None
             \<and> PcCreateAnswer \<notin> set (issued (startCall e) s)"
      by (simp add: newPeerConnection_def)
  qed
  from c1 c2 c3 c4 c5 c6 show ?thesis by (intro conjI)
qed

text \<open>
  Bob accepting Alice's invitation, every step resolving: the four calls in order, the
  offer applied, the answer set locally and stored.
\<close>

theorem C6_witness:
  "incomingCallProp bobMounted = Some invitation
   \<and> setRemoteDescriptionErr okEnv = None
   \<and> DbWrite (AnswerKey ''alice_1000'') \<in> set (issued (startCall okEnv) bobMounted)
   \<and> issued (startCall okEnv) bobMounted =
        [GetUserMedia \<lparr>video = FacingUser, audio = True\<rparr>, NewPeerConnection,
         PcAddTrack 0, PcAddTrack 1] @
        [PcSetRemoteDescription \<lparr>sigType = Offer, sdp = ''o''\<rparr>, PcCreateAnswer,
         PcSetLocalDescription \<lparr>sigType = Answer, sdp = ''a''\<rparr>,
         DbWrite (AnswerKey ''alice_1000'')] @
        [DbOnValue (CandidatesKey ''alice_1000'' ''alice'')]
   \<and> map_option currentRemoteDescription (peerConnection (startCall okEnv bobMounted)) =
        Some (Some \<lparr>sigType = Offer, sdp = ''o''\<rparr>)
   \<and> map_option localDescription (peerConnection (startCall okEnv bobMounted)) =
        Some (Some \<lparr>sigType = Answer, sdp = ''a''\<rparr>)
   \<and> answerAt (db bobMounted) ''alice_1000'' = None
   \<and> answerAt (db (startCall okEnv bobMounted)) ''alice_1000'' =
        Some \<lparr>sigType = Answer, sdp = ''a''\<rparr>"
proof -
  have h: "incomingCallProp bobMounted = Some invitation"
    by (simp add: fixture_defs call_defs)
  have c: "theCallId bobMounted = ''alice_1000''" "offer invitation = \<lparr>sigType = Offer, sdp = ''o''\<rparr>"
    "answerAt (db bobMounted) ''alice_1000'' = None"
    by (simp_all add: fixture_defs call_defs)
  have i: "issued (startCall okEnv) bobMounted =
        [GetUserMedia \<lparr>video = FacingUser, audio = True\<rparr>, NewPeerConnection,
         PcAddTrack 0, PcAddTrack 1,
         PcSetRemoteDescription \<lparr>sigType = Offer, sdp = ''o''\<rparr>, PcCreateAnswer,
         PcSetLocalDescription \<lparr>sigType = Answer, sdp = ''a''\<rparr>,
         DbWrite (AnswerKey ''alice_1000''),
         DbOnValue (CandidatesKey ''alice_1000'' ''alice'')]"
    by (simp add: issued_def fixture_defs call_defs upt_rec)
  have o: "createAnswerResult okEnv = Inr ''a''" "dbSetErr okEnv = None"
    "setRemoteDescriptionErr okEnv = None"
    by (simp_all add: okEnv_def)
  from C6_answer_written_after_offer_applied [OF h, of okEnv] h i c o show ?thesis
    by simp
qed

section \<open>A failed media acquisition\<close>

text \<open>
  C7. When \<^verbatim>\<open>getUserMedia\<close> is rejected, \<^verbatim>\<open>startCall\<close> shows the status
  \<^verbatim>\<open>'Failed to access media devices'\<close> (neither \<^verbatim>\<open>'Connected'\<close> nor the \<^verbatim>\<open>'Disconnected'\<close> of
  an ended call), and does nothing else than print the error and arm a timer of
  3000 ms for \<^verbatim>\<open>onEndCall\<close>: the call is still mounted, the store is untouched (no
  status, no invitation, no \<^verbatim>\<open>'ended'\<close>), and no peer connection or local stream
  exists that did not before. The end of the call comes when the timer fires.
\<close>

theorem C7_media_failure_ends_after_delay:
  assumes "gumResult e = Inl err"
  shows "connectionStatus (startCall e s) = ''Failed to access media devices''
       \<and> connectionStatus (startCall e s) \<noteq> ''Disconnected''
       \<and> connectionStatus (startCall e s) \<noteq> ''Connected''
       \<and> issued (startCall e) s =
           [GetUserMedia \<lparr>video = (if isVideoProp s then FacingUser else NoVideo), audio = True\<rparr>,
            ConsoleError ''Error starting call:'', SetTimeout 3000]
       \<and> timers (startCall e s) = timers s @ [3000]
       \<and> isInCall (startCall e s) = isInCall s \<and> mounted (startCall e s) = mounted s
       \<and> db (startCall e s) = db s
       \<and> peerConnection (startCall e s) = peerConnection s
       \<and> localStream (startCall e s) = localStream s
       \<and> (timers s = [] \<longrightarrow>
            step EvTimer (startCall e s) = endCall ((startCall e s)\<lparr>timers := []\<rparr>))"
  using assms
  by (simp add: startCall_def catchBlock_def requestLocalMedia_def logE_def issued_def)

theorem C7_witness:
  "gumResult deniedEnv = Inl NotAllowedError
   \<and> timers aliceMounted = []
   \<and> connectionStatus (startCall deniedEnv aliceMounted) = ''Failed to access media devices''
   \<and> timers (startCall deniedEnv aliceMounted) = [3000]
   \<and> isInCall (startCall deniedEnv aliceMounted)
   \<and> mounted (startCall deniedEnv aliceMounted)
   \<and> statusAt (db (startCall deniedEnv aliceMounted)) ''alice_1000'' = None
   \<and> incomingCallAt (db (startCall deniedEnv aliceMounted)) ''bob'' = None
   \<and> peerConnection (startCall deniedEnv aliceMounted) = None
   \<and> \<not> isInCall (step EvTimer (startCall deniedEnv aliceMounted))
   \<and> \<not> mounted (step EvTimer (startCall deniedEnv aliceMounted))"
proof -
  have h: "gumResult deniedEnv = Inl NotAllowedError"
    by (simp add: deniedEnv_def okEnv_def)
  have f: "timers aliceMounted = []" "isInCall aliceMounted" "mounted aliceMounted"
    "db aliceMounted = emptyDb" "peerConnection aliceMounted = None"
    by (simp_all add: fixture_defs call_defs)
  from C7_media_failure_ends_after_delay [OF h, of aliceMounted] h f show ?thesis
    by (simp add: emptyDb_def endCall_def render_def)
qed

section \<open>Switching the camera\<close>

lemma findIndex_none: "(\<forall>x \<in> set xs. \<not> P x) \<Longrightarrow> findIndex P xs = - 1"
  by (induction xs) (auto simp add: Let_def)

lemma findIndex_found: "findIndex P xs = int i \<Longrightarrow> i < length xs \<and> P (xs ! i)"
proof (induction xs arbitrary: i)
  case Nil
  then show ?case by simp
next
  case (Cons x xs)
  show ?case
  proof (cases "P x")
    case True
    with Cons.prems show ?thesis by simp
  next
    case False
    with Cons.prems have nz: "\<not> findIndex P xs < 0" and eq: "findIndex P xs + 1 = int i"
      by (auto simp add: Let_def split: if_splits)
    then obtain k where k: "i = Suc k" "findIndex P xs = int k"
      by (cases i) auto
    from Cons.IH [OF k(2)] k(1) show ?thesis by simp
  qed
qed

lemma nextDevice_not_found:
  assumes "\<forall>d \<in> set vs. Some (deviceId d) \<noteq> cur" and "vs \<noteq> []"
  shows "nextDevice vs cur = Some (hd vs)"
proof -
  have "findIndex (\<lambda>d. Some (deviceId d) = cur) vs = - 1"
    using assms(1) by (intro findIndex_none) simp
  with assms(2) show ?thesis
    by (cases vs) (simp_all add: nextDevice_def jsRem_def arrayAt_def)
qed

lemma nextDevice_found:
  assumes "findIndex (\<lambda>d. Some (deviceId d) = cur) vs = int i"
  shows "nextDevice vs cur = Some (vs ! ((i + 1) mod length vs))"
proof -
  from findIndex_found [OF assms] have i: "i < length vs" by simp
  then have n: "0 < length vs" by (cases vs) auto
  have "jsRem (int i + 1) (int (length vs)) = Some (int ((i + 1) mod length vs))"
    using n by (simp add: jsRem_def zmod_int sgn_if add.commute)
  moreover have "(i + 1) mod length vs < length vs" using n by simp
  ultimately show ?thesis
    using assms by (simp add: nextDevice_def arrayAt_def)
qed

lemma findIndex_cong:
  "(\<And>x. x \<in> set xs \<Longrightarrow> P x = Q x) \<Longrightarrow> findIndex P xs = findIndex Q xs"
  by (induction xs) (simp_all add: Let_def)

lemma findVideoSender_alloc:
  assumes "sendersValid s"
  shows "findVideoSender (allocStream ts (requestCamera nd (logE ef s))) = findVideoSender s"
proof (cases "peerConnection s")
  case None
  then show ?thesis
    by (simp add: findVideoSender_def allocStream_def requestCamera_def logE_def)
next
  case (Some pc)
  let ?s' = "allocStream ts (requestCamera nd (logE ef s))"
  have "findIndex (\<lambda>t. case t of None \<Rightarrow> False | Some i \<Rightarrow> kindOf ?s' i = Some VideoTrack) (senders pc)
      = findIndex (\<lambda>t. case t of None \<Rightarrow> False | Some i \<Rightarrow> kindOf s i = Some VideoTrack) (senders pc)"
  proof (rule findIndex_cong)
    fix x assume "x \<in> set (senders pc)"
    with assms Some show "(case x of None \<Rightarrow> False | Some i \<Rightarrow> kindOf ?s' i = Some VideoTrack)
        = (case x of None \<Rightarrow> False | Some i \<Rightarrow> kindOf s i = Some VideoTrack)"
      by (cases x)
         (auto simp add: sendersValid_def list_all_iff kindOf_def allocStream_def requestCamera_def
            logE_def nth_append)
  qed
  note eq = this
  have pc': "peerConnection ?s' = Some pc"
    using Some by (simp add: allocStream_def requestCamera_def logE_def)
  show ?thesis
    by (simp only: findVideoSender_def pc' Some option.case eq)
qed

lemma firstVideoTrack_alloc:
  assumes "kind t = VideoTrack"
  shows "firstVideoTrack (length (streams s)) (allocStream [t] (requestCamera nd (logE ef s)))
           = Some (length (tracks s))"
  using assms
  by (simp add: firstVideoTrack_def getVideoTracks_def getTracks_def kindOf_def allocStream_def
        requestCamera_def logE_def nth_append)

lemma firstVideoTrack_valid:
  "firstVideoTrack sid s = Some ct \<Longrightarrow>
     sid < length (streams s) \<and> ct < length (tracks s) \<and> ct \<in> set (streams s ! sid)"
proof -
  assume a: "firstVideoTrack sid s = Some ct"
  then have "ct \<in> set (getVideoTracks sid s)"
    by (cases "getVideoTracks sid s") (auto simp add: firstVideoTrack_def)
  then show ?thesis
    by (auto simp add: getVideoTracks_def getTracks_def kindOf_def split: if_splits)
qed

lemma switchCamera_success:
  assumes ls: "localStream s = Some sid"
    and hm: "hasMultipleCameras s"
    and en: "enumerateDevicesResult e = Inr devices"
    and cur: "firstVideoTrack sid s = Some ct"
    and idx: "findIndex (\<lambda>d. Some (deviceId d) = settingsDeviceId (tracks s ! ct))
                (filter (\<lambda>d. deviceKind d = VideoInput) devices) = int i"
    and gum: "gumResult e = Inr [t]" and vt: "kind t = VideoTrack"
    and sv: "sendersValid s" and snd: "findVideoSender s = Some j"
    and rep: "replaceTrackErr e = None"
  shows "switchCamera e s =
     showLocalStream (addTrackTo sid (length (tracks s)) (removeTrackFrom sid ct
       (updPc (\<lambda>pc. pc\<lparr>senders := (senders pc)[j := Some (length (tracks s))]\<rparr>)
         (logE (SenderReplaceTrack j (Some (length (tracks s))))
           (allocStream [t]
             (requestCamera
                (filter (\<lambda>d. deviceKind d = VideoInput) devices !
                   ((i + 1) mod length (filter (\<lambda>d. deviceKind d = VideoInput) devices)))
                (logE EnumerateDevices s)))))))"
proof -
  let ?vs = "filter (\<lambda>d. deviceKind d = VideoInput) devices"
  let ?nd = "?vs ! ((i + 1) mod length ?vs)"
  let ?s0 = "logE EnumerateDevices s"
  have nd: "nextDevice ?vs (settingsDeviceId (tracks s ! ct)) = Some ?nd"
    by (rule nextDevice_found [OF idx])
  have sw: "switchCamera e s = replaceVideoTrack e sid (Some ct) ?nd ?s0"
    by (simp add: switchCamera_def ls hm en cur nd Let_def)
  have st: "length (streams ?s0) = length (streams s)" by (simp add: logE_def)
  have nt: "firstVideoTrack (length (streams ?s0)) (allocStream [t] (requestCamera ?nd ?s0))
      = Some (length (tracks s))"
    unfolding st by (rule firstVideoTrack_alloc [OF vt])
  have fs: "findVideoSender (allocStream [t] (requestCamera ?nd ?s0)) = Some j"
    by (simp only: findVideoSender_alloc [OF sv] snd)
  show ?thesis
    by (simp only: sw replaceVideoTrack_def gum sum.case nt replaceSenderTrack_def fs option.case rep
          swapLocalTrack_def)
qed

text \<open>
  The successful switch, as the code has it. With a local stream, the multiple-cameras flag set, the
  current video track's device found at index \<open>i\<close> among the enumerated video inputs, a
  camera stream granted and a video sender on the peer connection, \<^verbatim>\<open>switchCamera\<close>
  issues exactly three outside calls, in this order: \<^verbatim>\<open>enumerateDevices\<close>,
  \<^verbatim>\<open>getUserMedia\<close> for exactly the device at \<open>(i + 1) mod count\<close>, and \<^verbatim>\<open>replaceTrack\<close> on
  that sender with the new track. No offer or answer is created, no description is set
  and nothing is written to the store; of the peer connection only the sender's track
  changes. The local stream then holds the new track in place of the old one, and the
  preview element is given the local stream again.
\<close>

lemma switchCamera_replaces_track:
  assumes ls: "localStream s = Some sid"
    and hm: "hasMultipleCameras s"
    and en: "enumerateDevicesResult e = Inr devices"
    and cur: "firstVideoTrack sid s = Some ct"
    and idx: "findIndex (\<lambda>d. Some (deviceId d) = settingsDeviceId (tracks s ! ct))
                (filter (\<lambda>d. deviceKind d = VideoInput) devices) = int i"
    and nd: "nd = filter (\<lambda>d. deviceKind d = VideoInput) devices !
                   ((i + 1) mod length (filter (\<lambda>d. deviceKind d = VideoInput) devices))"
    and gum: "gumResult e = Inr [t]" and vt: "kind t = VideoTrack"
    and sv: "sendersValid s" and snd: "findVideoSender s = Some j"
    and rep: "replaceTrackErr e = None"
  shows "issued (switchCamera e) s =
           [EnumerateDevices,
            GetUserMedia \<lparr>video = ExactDevice (deviceId nd), audio = False\<rparr>,
            SenderReplaceTrack j (Some (length (tracks s)))]
       \<and> tracks (switchCamera e s) ! length (tracks s) = t
       \<and> peerConnection (switchCamera e s) =
           map_option (\<lambda>pc. pc\<lparr>senders := (senders pc)[j := Some (length (tracks s))]\<rparr>)
             (peerConnection s)
       \<and> db (switchCamera e s) = db s
       \<and> localStream (switchCamera e s) = Some sid
       \<and> set (getTracks sid (switchCamera e s)) = insert (length (tracks s)) (set (getTracks sid s) - {ct})
       \<and> localVideoRef (switchCamera e s) =
           (case localVideoRef s of None \<Rightarrow> None | Some _ \<Rightarrow> Some (Some sid))"
proof -
  from firstVideoTrack_valid [OF cur] have v: "sid < length (streams s)" by simp
  note cf = switchCamera_success [OF ls hm en cur idx gum vt sv snd rep, folded nd]
  have 1: "issued (switchCamera e) s =
           [EnumerateDevices,
            GetUserMedia \<lparr>video = ExactDevice (deviceId nd), audio = False\<rparr>,
            SenderReplaceTrack j (Some (length (tracks s)))]"
    by (simp add: cf issued_def showLocalStream_def addTrackTo_def removeTrackFrom_def updPc_def
          logE_def allocStream_def requestCamera_def split: option.splits)
  have 2: "tracks (switchCamera e s) ! length (tracks s) = t"
    by (simp add: cf showLocalStream_def addTrackTo_def removeTrackFrom_def updPc_def
          logE_def allocStream_def requestCamera_def split: option.splits)
  have 3: "peerConnection (switchCamera e s) =
           map_option (\<lambda>pc. pc\<lparr>senders := (senders pc)[j := Some (length (tracks s))]\<rparr>)
             (peerConnection s)"
    by (simp add: cf showLocalStream_def addTrackTo_def removeTrackFrom_def updPc_def
          logE_def allocStream_def requestCamera_def split: option.splits)
  have 4: "db (switchCamera e s) = db s"
    by (simp add: cf showLocalStream_def addTrackTo_def removeTrackFrom_def updPc_def
          logE_def allocStream_def requestCamera_def split: option.splits)
  have 5: "localStream (switchCamera e s) = Some sid"
    by (simp add: cf ls showLocalStream_def addTrackTo_def removeTrackFrom_def updPc_def
          logE_def allocStream_def requestCamera_def split: option.splits)
  have 6: "set (getTracks sid (switchCamera e s)) = insert (length (tracks s)) (set (getTracks sid s) - {ct})"
    using v
    by (auto simp add: cf getTracks_def showLocalStream_def addTrackTo_def removeTrackFrom_def updPc_def
          logE_def allocStream_def requestCamera_def nth_append split: option.splits)
  have 7: "localVideoRef (switchCamera e s) =
           (case localVideoRef s of None \<Rightarrow> None | Some _ \<Rightarrow> Some (Some sid))"
    by (simp add: cf ls showLocalStream_def addTrackTo_def removeTrackFrom_def updPc_def
          logE_def allocStream_def requestCamera_def split: option.splits)
  from 1 2 3 4 5 6 7 show ?thesis by (intro conjI)
qed

lemma aliceInCall_media:
  "localStream aliceInCall = Some 0" "hasMultipleCameras aliceInCall"
  "tracks aliceInCall = [mic, frontCam]" "streams aliceInCall = [0, 1] # []"
  "peerConnection aliceInCall =
     Some \<lparr>senders = [Some 0, Some 1],
           localDescription = Some \<lparr>sigType = Offer, sdp = ''o''\<rparr>,
           currentRemoteDescription = None, pendingRemoteDescriptions = [],
           addedIceCandidates = [], connectionState = StNew\<rparr>"
  "localVideoRef aliceInCall = Some (Some 0)"
  by (simp_all add: fixture_defs call_defs showNat_1000 upt_rec)

lemma aliceInCall_video:
  "firstVideoTrack 0 aliceInCall = Some 1"
  "sendersValid aliceInCall" "findVideoSender aliceInCall = Some 1"
  "findIndex (\<lambda>d. Some (deviceId d) = settingsDeviceId (tracks aliceInCall ! 1))
     (filter (\<lambda>d. deviceKind d = VideoInput) twoCameras) = int 0"
  by (simp_all add: firstVideoTrack_def sendersValid_def findVideoSender_def
        fixture_defs call_defs showNat_1000 upt_rec)

text \<open>Alice's call with two cameras: the front camera is replaced by the back camera.\<close>

lemma switchCamera_replaces_track_example:
  "localStream aliceInCall = Some 0 \<and> hasMultipleCameras aliceInCall
   \<and> enumerateDevicesResult swEnv = Inr twoCameras
   \<and> firstVideoTrack 0 aliceInCall = Some 1
   \<and> gumResult swEnv = Inr [backCam] \<and> kind backCam = VideoTrack
   \<and> sendersValid aliceInCall \<and> findVideoSender aliceInCall = Some 1
   \<and> replaceTrackErr swEnv = None
   \<and> issued (switchCamera swEnv) aliceInCall =
        [EnumerateDevices, GetUserMedia \<lparr>video = ExactDevice ''cam1'', audio = False\<rparr>,
         SenderReplaceTrack 1 (Some 2)]
   \<and> tracks (switchCamera swEnv aliceInCall) ! 2 = backCam
   \<and> map_option senders (peerConnection (switchCamera swEnv aliceInCall)) = Some [Some 0, Some 2]
   \<and> set (getTracks 0 (switchCamera swEnv aliceInCall)) = {0, 2}
   \<and> localVideoRef (switchCamera swEnv aliceInCall) = Some (Some 0)"
proof -
  have e: "enumerateDevicesResult swEnv = Inr twoCameras" "gumResult swEnv = Inr [backCam]"
    "replaceTrackErr swEnv = None" "kind backCam = VideoTrack"
    by (simp_all add: swEnv_def okEnv_def backCam_def)
  have n: "\<lparr>deviceId = ''cam1'', deviceKind = VideoInput\<rparr> =
      filter (\<lambda>d. deviceKind d = VideoInput) twoCameras !
        ((0 + 1) mod length (filter (\<lambda>d. deviceKind d = VideoInput) twoCameras))"
    by (simp add: twoCameras_def)
  have g: "getTracks 0 aliceInCall = [0, 1]"
    by (simp add: getTracks_def aliceInCall_media)
  have l: "length (tracks aliceInCall) = 2"
    by (simp add: aliceInCall_media)
  note c = switchCamera_replaces_track [OF aliceInCall_media(1,2) e(1) aliceInCall_video(1,4) n e(2,4)
         aliceInCall_video(2,3) e(3), unfolded l g]
  have s6: "insert (2::nat) (set [0, 1] - {1}) = {0, 2}" by auto
  have u: "[Some 0, Some 1][1 := Some 2] = [Some (0::nat), Some 2]" by simp
  from c show ?thesis
    by (simp only: e aliceInCall_media(1,2,5,6) aliceInCall_video(1,2,3) s6 u
          option.map option.case rtcPeerConnection.simps list_update_code
          mediaDeviceInfo.simps simp_thms)
qed

lemma switched_tracks:
  "tracks (switchCamera swEnv aliceInCall) = [mic, frontCam, backCam]"
  "trace (switchCamera swEnv aliceInCall) = trace aliceInCall @
     [EnumerateDevices, GetUserMedia \<lparr>video = ExactDevice ''cam1'', audio = False\<rparr>,
      SenderReplaceTrack 1 (Some 2)]"
proof -
  have e: "enumerateDevicesResult swEnv = Inr twoCameras" "gumResult swEnv = Inr [backCam]"
    "replaceTrackErr swEnv = None" "kind backCam = VideoTrack"
    by (simp_all add: swEnv_def okEnv_def backCam_def)
  note cf = switchCamera_success [OF aliceInCall_media(1,2) e(1) aliceInCall_video(1,4) e(2,4)
         aliceInCall_video(2,3) e(3)]
  show "tracks (switchCamera swEnv aliceInCall) = [mic, frontCam, backCam]"
    by (simp add: cf showLocalStream_def addTrackTo_def removeTrackFrom_def updPc_def
          logE_def allocStream_def requestCamera_def aliceInCall_media(3) split: option.splits)
  show "trace (switchCamera swEnv aliceInCall) = trace aliceInCall @
     [EnumerateDevices, GetUserMedia \<lparr>video = ExactDevice ''cam1'', audio = False\<rparr>,
      SenderReplaceTrack 1 (Some 2)]"
    by (simp add: cf showLocalStream_def addTrackTo_def removeTrackFrom_def updPc_def
          logE_def allocStream_def requestCamera_def aliceInCall_media(3) twoCameras_def
          split: option.splits)
qed

lemma aliceInCall_trace: "TrackStop 1 \<notin> set (trace aliceInCall)"
  by (simp add: fixture_defs call_defs showNat_1000 upt_rec)

lemma cleanup_step_tracks:
  "tracks (closePeerConnection s) = tracks s"
  "tracks (markEnded s) = tracks s"
  "tracks (offStatus s) = tracks s"
  "tracks (cleanSignaling s) = tracks s"
  "tracks (offCandidates s) = tracks s"
  by (simp_all add: closePeerConnection_eq markEnded_def offStatus_def cleanSignaling_def
        offCandidates_def dbOff_def dbRemoveIncomingCall_def dbSetStatus_def logE_def
        split: option.splits)

lemma cleanup_tracks:
  "tracks (cleanup s) =
     (case localStream s of None \<Rightarrow> tracks s
      | Some sid \<Rightarrow> endTracks (getTracks sid s) (tracks s))"
  by (simp add: cleanup_def cleanup_step_tracks stopLocalTracks_eq)

lemma switched_stream:
  "localStream (switchCamera swEnv aliceInCall) = Some 0"
  "getTracks 0 (switchCamera swEnv aliceInCall) = [0, 2]"
  "mounted (switchCamera swEnv aliceInCall)"
proof -
  have e: "enumerateDevicesResult swEnv = Inr twoCameras" "gumResult swEnv = Inr [backCam]"
    "replaceTrackErr swEnv = None" "kind backCam = VideoTrack"
    by (simp_all add: swEnv_def okEnv_def backCam_def)
  note cf = switchCamera_success [OF aliceInCall_media(1,2) e(1) aliceInCall_video(1,4) e(2,4)
         aliceInCall_video(2,3) e(3)]
  have m: "mounted aliceInCall" by (rule aliceInCall_facts(1))
  show "localStream (switchCamera swEnv aliceInCall) = Some 0"
    by (simp add: cf showLocalStream_def addTrackTo_def removeTrackFrom_def updPc_def
          logE_def allocStream_def requestCamera_def aliceInCall_media(1) split: option.splits)
  show "getTracks 0 (switchCamera swEnv aliceInCall) = [0, 2]"
    by (simp add: cf getTracks_def showLocalStream_def addTrackTo_def removeTrackFrom_def updPc_def
          logE_def allocStream_def requestCamera_def aliceInCall_media(3,4) split: option.splits)
  show "mounted (switchCamera swEnv aliceInCall)"
    by (simp add: cf m showLocalStream_def addTrackTo_def removeTrackFrom_def updPc_def
          logE_def allocStream_def requestCamera_def split: option.splits)
qed

lemma getTracks_app_state:
  "getTracks sid (s\<lparr>isInCall := a, incomingCall := b\<rparr>) = getTracks sid s"
  by (simp add: getTracks_def)

text \<open>
  C8. The last step of the algorithm, stopping the old track, is not in the code.
  Alice, in a video call with two cameras, switches from the front camera (track 1) to
  the back camera (track 2). The old track is the one \<^verbatim>\<open>switchCamera\<close> takes out of the
  local stream; it is live before the switch and live after it, and no \<^verbatim>\<open>stop\<close> is ever
  issued on it. Since it has left the local stream, the cleanup at the end of the call,
  which stops the tracks of the local stream (the microphone and the back camera),
  leaves it live as well: the front camera stays captured after the call is over.
\<close>

theorem C8_old_track_left_live:
  "firstVideoTrack 0 aliceInCall = Some 1
   \<and> getTracks 0 aliceInCall = [0, 1]
   \<and> getTracks 0 (switchCamera swEnv aliceInCall) = [0, 2]
   \<and> readyState (tracks aliceInCall ! 1) = Live
   \<and> readyState (tracks (switchCamera swEnv aliceInCall) ! 1) = Live
   \<and> TrackStop 1 \<notin> set (trace (switchCamera swEnv aliceInCall))
   \<and> readyState (tracks (endCall (switchCamera swEnv aliceInCall)) ! 0) = Ended
   \<and> readyState (tracks (endCall (switchCamera swEnv aliceInCall)) ! 2) = Ended
   \<and> readyState (tracks (endCall (switchCamera swEnv aliceInCall)) ! 1) = Live"
proof -
  have g: "getTracks 0 aliceInCall = [0, 1]"
    by (simp add: getTracks_def aliceInCall_media)
  from aliceInCall_trace g show ?thesis
    by (simp add: aliceInCall_video(1) aliceInCall_media(3) switched_tracks switched_stream
          endCall_def render_def cleanup_tracks getTracks_app_state endTracks_def frontCam_def
          mic_def backCam_def)
qed









lemma swapLocalTrack_trace:
  "\<exists>T. trace (swapLocalTrack sid ct nt s) = trace s @ T"
  by (simp add: swapLocalTrack_def showLocalStream_def addTrackTo_def removeTrackFrom_def
        consoleError_def logE_def split: option.splits)

lemma replaceSenderTrack_trace:
  "\<exists>T. trace (replaceSenderTrack e sid ct nt s) = trace s @ T"
proof (cases "findVideoSender s")
  case None
  then show ?thesis by (simp add: replaceSenderTrack_def swapLocalTrack_trace)
next
  case (Some j)
  show ?thesis
  proof (cases "replaceTrackErr e")
    case None
    obtain T where "trace (swapLocalTrack sid ct nt
         (updPc (\<lambda>pc. pc\<lparr>senders := (senders pc)[j := nt]\<rparr>) (logE (SenderReplaceTrack j nt) s)))
       = trace (updPc (\<lambda>pc. pc\<lparr>senders := (senders pc)[j := nt]\<rparr>) (logE (SenderReplaceTrack j nt) s)) @ T"
      using swapLocalTrack_trace by blast
    then show ?thesis
      using Some None
      by (simp add: replaceSenderTrack_def updPc_def logE_def split: option.splits)
  next
    case (Some err)
    with \<open>findVideoSender s = Some j\<close> show ?thesis
      by (simp add: replaceSenderTrack_def consoleError_def logE_def)
  qed
qed

lemma replaceVideoTrack_trace:
  "\<exists>T. trace (replaceVideoTrack e sid ct nd s) =
     trace s @ GetUserMedia \<lparr>video = ExactDevice (deviceId nd), audio = False\<rparr> # T"
proof (cases "gumResult e")
  case (Inl err)
  then show ?thesis
    by (simp add: replaceVideoTrack_def consoleError_def requestCamera_def logE_def)
next
  case (Inr ts)
  let ?s2 = "allocStream ts (requestCamera nd s)"
  obtain T where "trace (replaceSenderTrack e sid ct (firstVideoTrack (length (streams s)) ?s2) ?s2)
      = trace ?s2 @ T"
    using replaceSenderTrack_trace by blast
  then show ?thesis
    using Inr by (simp add: replaceVideoTrack_def allocStream_def requestCamera_def logE_def)
qed

text \<open>
  C10. When no enumerated video input has the device identifier of the current video
  track (or there is no such track or identifier), \<^verbatim>\<open>findIndex\<close> gives -1, the selected
  device is the first enumerated video input, and \<^verbatim>\<open>switchCamera\<close> goes on to acquire
  it: its first two outside calls are \<^verbatim>\<open>enumerateDevices\<close> and \<^verbatim>\<open>getUserMedia\<close> for
  exactly that device.
\<close>

theorem C10_unknown_device_selects_first:
  assumes ls: "localStream s = Some sid"
    and hm: "hasMultipleCameras s"
    and en: "enumerateDevicesResult e = Inr devices"
    and ne: "filter (\<lambda>d. deviceKind d = VideoInput) devices \<noteq> []"
    and nf: "\<forall>d \<in> set (filter (\<lambda>d. deviceKind d = VideoInput) devices).
               Some (deviceId d) \<noteq>
                 (case firstVideoTrack sid s of None \<Rightarrow> None
                  | Some t \<Rightarrow> settingsDeviceId (tracks s ! t))"
  shows "findIndex (\<lambda>d. Some (deviceId d) =
                 (case firstVideoTrack sid s of None \<Rightarrow> None
                  | Some t \<Rightarrow> settingsDeviceId (tracks s ! t)))
           (filter (\<lambda>d. deviceKind d = VideoInput) devices) = - 1
       \<and> nextDevice (filter (\<lambda>d. deviceKind d = VideoInput) devices)
           (case firstVideoTrack sid s of None \<Rightarrow> None
            | Some t \<Rightarrow> settingsDeviceId (tracks s ! t))
           = Some (hd (filter (\<lambda>d. deviceKind d = VideoInput) devices))
       \<and> switchCamera e s =
           replaceVideoTrack e sid (firstVideoTrack sid s)
             (hd (filter (\<lambda>d. deviceKind d = VideoInput) devices)) (logE EnumerateDevices s)
       \<and> take 2 (issued (switchCamera e) s) =
           [EnumerateDevices,
            GetUserMedia
              \<lparr>video = ExactDevice (deviceId (hd (filter (\<lambda>d. deviceKind d = VideoInput) devices))),
               audio = False\<rparr>]"
proof -
  let ?vs = "filter (\<lambda>d. deviceKind d = VideoInput) devices"
  let ?cur = "case firstVideoTrack sid s of None \<Rightarrow> None
                  | Some t \<Rightarrow> settingsDeviceId (tracks s ! t)"
  have 1: "findIndex (\<lambda>d. Some (deviceId d) = ?cur) ?vs = - 1"
    using nf by (intro findIndex_none) simp
  have 2: "nextDevice ?vs ?cur = Some (hd ?vs)"
    by (rule nextDevice_not_found [OF nf ne])
  have 3: "switchCamera e s = replaceVideoTrack e sid (firstVideoTrack sid s) (hd ?vs) (logE EnumerateDevices s)"
    by (simp add: switchCamera_def ls hm en 2 Let_def)
  obtain T where "trace (replaceVideoTrack e sid (firstVideoTrack sid s) (hd ?vs) (logE EnumerateDevices s))
      = trace (logE EnumerateDevices s) @
          GetUserMedia \<lparr>video = ExactDevice (deviceId (hd ?vs)), audio = False\<rparr> # T"
    using replaceVideoTrack_trace by blast
  then have 4: "take 2 (issued (switchCamera e) s) =
     [EnumerateDevices, GetUserMedia \<lparr>video = ExactDevice (deviceId (hd ?vs)), audio = False\<rparr>]"
    by (simp add: issued_def 3 logE_def)
  from 1 2 3 4 show ?thesis by (intro conjI)
qed

text \<open>Alice's call after the device identifiers have changed.\<close>

theorem C10_witness:
  "localStream aliceInCall = Some 0 \<and> hasMultipleCameras aliceInCall
   \<and> enumerateDevicesResult renumberedEnv = Inr otherCameras
   \<and> firstVideoTrack 0 aliceInCall = Some 1
   \<and> settingsDeviceId (tracks aliceInCall ! 1) = Some ''cam0''
   \<and> map deviceId (filter (\<lambda>d. deviceKind d = VideoInput) otherCameras) = [''camA'', ''camB'']
   \<and> nextDevice (filter (\<lambda>d. deviceKind d = VideoInput) otherCameras) (Some ''cam0'')
       = Some \<lparr>deviceId = ''camA'', deviceKind = VideoInput\<rparr>
   \<and> take 2 (issued (switchCamera renumberedEnv) aliceInCall) =
       [EnumerateDevices, GetUserMedia \<lparr>video = ExactDevice ''camA'', audio = False\<rparr>]"
proof -
  have en: "enumerateDevicesResult renumberedEnv = Inr otherCameras"
    by (simp add: renumberedEnv_def)
  have cur: "settingsDeviceId (tracks aliceInCall ! 1) = Some ''cam0''"
    by (simp add: aliceInCall_media(3) frontCam_def)
  have vs: "filter (\<lambda>d. deviceKind d = VideoInput) otherCameras =
      [\<lparr>deviceId = ''camA'', deviceKind = VideoInput\<rparr>,
       \<lparr>deviceId = ''camB'', deviceKind = VideoInput\<rparr>]"
    by (simp add: otherCameras_def)
  have ne: "filter (\<lambda>d. deviceKind d = VideoInput) otherCameras \<noteq> []"
    by (simp add: vs)
  have nf: "\<forall>d \<in> set (filter (\<lambda>d. deviceKind d = VideoInput) otherCameras).
               Some (deviceId d) \<noteq>
                 (case firstVideoTrack 0 aliceInCall of None \<Rightarrow> None
                  | Some t \<Rightarrow> settingsDeviceId (tracks aliceInCall ! t))"
    using cur by (simp add: vs aliceInCall_video(1))
  from C10_unknown_device_selects_first [OF aliceInCall_media(1,2) en ne nf]
  show ?thesis
    using cur by (simp add: aliceInCall_media(1,2) en aliceInCall_video(1) vs)
qed

end
